theory Spec2Isabelle
  imports Main
begin

section \<open>Python strings\<close>

text \<open>
  A Python \<open>str\<close> is modelled as a \<open>string\<close>; a \<open>char\<close> stands for a code point
  below 256 (Latin-1), which covers every literal of \<open>scrapy.py\<close>.
\<close>

definition isspace :: "char \<Rightarrow> bool" where
  "isspace c = ((of_char c :: nat) \<in> {9, 10, 11, 12, 13, 28, 29, 30, 31, 32, 133, 160})"

definition lstrip :: "string \<Rightarrow> string" where
  "lstrip s = dropWhile isspace s"

definition rstrip :: "string \<Rightarrow> string" where
  "rstrip s = rev (dropWhile isspace (rev s))"

definition strip :: "string \<Rightarrow> string" where
  "strip s = rstrip (lstrip s)"

text \<open>\<open>s.lstrip("/")\<close> and \<open>s.rstrip("/")\<close>.\<close>

definition lstrip_chars :: "char \<Rightarrow> string \<Rightarrow> string" where
  "lstrip_chars x s = dropWhile (\<lambda>c. c = x) s"

definition rstrip_chars :: "char \<Rightarrow> string \<Rightarrow> string" where
  "rstrip_chars x s = rev (dropWhile (\<lambda>c. c = x) (rev s))"

definition lower_char :: "char \<Rightarrow> char" where
  "lower_char c =
     (let n = (of_char c :: nat)
      in if (65 \<le> n \<and> n \<le> 90) \<or> (192 \<le> n \<and> n \<le> 222 \<and> n \<noteq> 215)
         then char_of (n + 32) else c)"

definition lower :: "string \<Rightarrow> string" where
  "lower s = map lower_char s"

definition startswith :: "string \<Rightarrow> string \<Rightarrow> bool" where
  "startswith s p = (take (length p) s = p)"

text \<open>\<open>str_in sub s\<close> is Python's \<open>sub in s\<close> on strings.\<close>

fun str_in :: "string \<Rightarrow> string \<Rightarrow> bool" where
  "str_in sub [] = (sub = [])"
| "str_in sub (c # cs) = (startswith (c # cs) sub \<or> str_in sub cs)"

fun join :: "string \<Rightarrow> string list \<Rightarrow> string" where
  "join sep [] = []"
| "join sep [x] = x"
| "join sep (x # y # ys) = x @ sep @ join sep (y # ys)"

text \<open>\<open>s.replace(a, b)\<close> for single characters \<open>a\<close> and \<open>b\<close>.\<close>

definition replace_char :: "char \<Rightarrow> char \<Rightarrow> string \<Rightarrow> string" where
  "replace_char a b s = map (\<lambda>c. if c = a then b else c) s"

section \<open>Exceptions\<close>

text \<open>
  The exceptions that the code can meet, all subclasses of \<open>Exception\<close>: from the HTTP
  transport, from \<open>raise_for_status\<close>, from \<open>r.json()\<close>, from a missing key, from a method
  that a value does not have, from the YouTube client, from the HTML parser, from \<open>input\<close>.
\<close>

datatype exn =
    ConnectionError | Timeout | HTTPError | JSONDecodeError
  | KeyError | AttributeError | GoogleApiError | ParserRejectedMarkup | EOFError

section \<open>Python dictionaries in insertion order\<close>

text \<open>
  \<open>sections\<close> is iterated with \<open>.items()\<close>, so the order of insertion matters: a dict is an
  association list with distinct keys; assigning to a key that is present keeps its position.
\<close>

type_synonym ('k, 'v) dict = "('k \<times> 'v) list"

fun dict_set :: "('k, 'v) dict \<Rightarrow> 'k \<Rightarrow> 'v \<Rightarrow> ('k, 'v) dict" where
  "dict_set [] k v = [(k, v)]"
| "dict_set ((k', v') # kvs) k v =
     (if k' = k then (k, v) # kvs else (k', v') # dict_set kvs k v)"

definition dict_get :: "('k, 'v) dict \<Rightarrow> 'k \<Rightarrow> 'v option" where
  "dict_get d k = map_of d k"

definition setdefault :: "('k, 'v) dict \<Rightarrow> 'k \<Rightarrow> 'v \<Rightarrow> ('k, 'v) dict" where
  "setdefault d k v = (case map_of d k of None \<Rightarrow> d @ [(k, v)] | Some _ \<Rightarrow> d)"

section \<open>The parsed document\<close>

text \<open>
  What \<open>BeautifulSoup(html, "html.parser")\<close> returns: a forest of tags (name, attributes,
  children), text nodes, and strings that \<open>get_text\<close> skips (comments, declarations).
  The parser itself is a parameter of the model: it returns the document or raises
  (\<open>ParserRejectedMarkup\<close> on markup that \<open>html.parser\<close> rejects).
\<close>

datatype node =
    Tag string "(string \<times> string) list" "node list"
  | NavigableString string
  | Comment string

type_synonym soup = "node list"

fun tag_name :: "node \<Rightarrow> string option" where
  "tag_name (Tag n a cs) = Some n"
| "tag_name _ = None"

text \<open>\<open>re.match("^h[1-6]$", name)\<close>; \<open>$\<close> also matches before a final newline.\<close>

definition is_heading_name :: "string \<Rightarrow> bool" where
  "is_heading_name n =
     (case n of
        [h, d] \<Rightarrow> h = CHR ''h'' \<and> d \<in> set ''123456''
      | [h, d, e] \<Rightarrow> h = CHR ''h'' \<and> d \<in> set ''123456'' \<and> e = CHR 0x0A
      | _ \<Rightarrow> False)"

definition is_heading :: "node \<Rightarrow> bool" where
  "is_heading n = (case tag_name n of Some nm \<Rightarrow> is_heading_name nm | None \<Rightarrow> False)"

definition is_named :: "string \<Rightarrow> node \<Rightarrow> bool" where
  "is_named nm n = (tag_name n = Some nm)"

text \<open>\<open>for tb in soup.select("table"): tb.decompose()\<close>: every table goes, at any depth.\<close>

fun decompose_tables :: "node \<Rightarrow> node" where
  "decompose_tables (Tag n a cs) =
     Tag n a (map decompose_tables (filter (\<lambda>c. \<not> is_named ''table'' c) cs))"
| "decompose_tables x = x"

definition remove_tables :: "soup \<Rightarrow> soup" where
  "remove_tables s = map decompose_tables (filter (\<lambda>c. \<not> is_named ''table'' c) s)"

text \<open>All descendants in document order, as \<open>find_all\<close> and \<open>find\<close> visit them.\<close>

fun descendants :: "node list \<Rightarrow> node list" where
  "descendants [] = []"
| "descendants (Tag n a cs # rest) = Tag n a cs # descendants cs @ descendants rest"
| "descendants (x # rest) = x # descendants rest"

text \<open>
  \<open>soup.find_all(re.compile("^h[1-6]$"))\<close>, each heading paired with its
  \<open>next_siblings\<close>.
\<close>

fun headers :: "node list \<Rightarrow> (node \<times> node list) list" where
  "headers [] = []"
| "headers (Tag n a cs # rest) =
     (if is_heading (Tag n a cs) then [(Tag n a cs, rest)] else []) @ headers cs @ headers rest"
| "headers (x # rest) = headers rest"

text \<open>The strings \<open>get_text\<close> collects from a node.\<close>

fun all_strings :: "node \<Rightarrow> string list" where
  "all_strings (Tag n a cs) = concat (map all_strings cs)"
| "all_strings (NavigableString s) = [s]"
| "all_strings (Comment s) = []"

text \<open>\<open>node.get_text(separator=sep)\<close> and \<open>node.get_text(strip=True)\<close>.\<close>

definition get_text :: "string \<Rightarrow> node \<Rightarrow> string" where
  "get_text sep n = join sep (all_strings n)"

definition get_text_strip :: "node \<Rightarrow> string" where
  "get_text_strip n = concat (filter (\<lambda>s. s \<noteq> []) (map strip (all_strings n)))"

section \<open>extract\_sections\_from\_wiki\_html\<close>

text \<open>The inner loop over \<open>header.next_siblings\<close>, up to the next heading.\<close>

fun content_parts :: "node list \<Rightarrow> string list" where
  "content_parts [] = []"
| "content_parts (sib # sibs) =
     (if is_heading sib then []
      else (if tag_name sib \<in> Some ` {''p'', ''ul'', ''ol'', ''div''}
            then (let txt = strip (get_text '' '' sib) in if txt \<noteq> [] then [txt] else [])
            else [])
           @ content_parts sibs)"

definition head_key :: "node \<Rightarrow> string" where
  "head_key header = lower (strip (get_text '' '' header))"

definition section_step ::
  "(string, string) dict \<Rightarrow> node \<times> node list \<Rightarrow> (string, string) dict" where
  "section_step sections hs =
     (let parts = content_parts (snd hs)
      in if parts \<noteq> [] then dict_set sections (head_key (fst hs)) (join [CHR 0x0A, CHR 0x0A] parts)
         else sections)"

definition heading_sections :: "soup \<Rightarrow> (string, string) dict" where
  "heading_sections s = foldl section_step [] (headers s)"

definition lead_para :: "soup \<Rightarrow> string" where
  "lead_para s =
     (case find (is_named ''p'') (descendants s) of
        Some first_p \<Rightarrow> get_text_strip first_p
      | None \<Rightarrow> [])"

definition sections_of_soup :: "soup \<Rightarrow> (string, string) dict" where
  "sections_of_soup s0 =
     (let s = remove_tables s0
      in setdefault (heading_sections s) ''summary'' (lead_para s))"

text \<open>
  Line 61 parses the page; the rest of the function is \<open>sections_of_soup\<close>. Nothing in the
  function catches what the parser raises.
\<close>

definition extract_sections_from_wiki_html ::
  "(string \<Rightarrow> exn + soup) \<Rightarrow> string \<Rightarrow> exn + (string, string) dict" where
  "extract_sections_from_wiki_html parser html =
     (case parser html of Inl e \<Rightarrow> Inl e | Inr s \<Rightarrow> Inr (sections_of_soup s))"

section \<open>Section classification (find\_relevant\_wiki\_info, lines 95 to 119)\<close>

record wiki_info =
  w_title :: "string option"
  w_summary :: "string option"
  w_syllabus :: "string option"
  w_pattern :: "string option"
  other_sections :: "(string, string) dict"

definition empty_wiki_info :: wiki_info where
  "empty_wiki_info =
     \<lparr>w_title = None, w_summary = None, w_syllabus = None, w_pattern = None,
      other_sections = []\<rparr>"

text \<open>Truth value of an optional string: \<open>None\<close> and \<open>""\<close> are false.\<close>

definition truthy :: "string option \<Rightarrow> bool" where
  "truthy x = (case x of None \<Rightarrow> False | Some s \<Rightarrow> s \<noteq> [])"

definition py_or :: "string option \<Rightarrow> string option \<Rightarrow> string option" where
  "py_or a b = (if truthy a then a else b)"

definition syllabus_keys :: "string list" where
  "syllabus_keys = [''syllabus'', ''curriculum'', ''exam syllabus'',
     ''syllabus and exam pattern'', ''syllabus and structure'']"

definition pattern_keys :: "string list" where
  "pattern_keys = [''exam pattern'', ''pattern'', ''format'', ''structure'', ''scheme'']"

definition syllabus_words :: "string list" where
  "syllabus_words = [''syllabus'', ''curriculum'', ''subjects'', ''paper'', ''exam'']"

definition pattern_words :: "string list" where
  "pattern_words = [''pattern'', ''structure'', ''format'', ''scheme'', ''paper'']"

text \<open>\<open>for k in keys: if k in sections: ...; break\<close>\<close>

fun first_present :: "string list \<Rightarrow> (string, string) dict \<Rightarrow> string option" where
  "first_present [] sections = None"
| "first_present (k # ks) sections =
     (case dict_get sections k of Some v \<Rightarrow> Some v | None \<Rightarrow> first_present ks sections)"

text \<open>\<open>for secname, content in sections.items(): if any(word in secname ...): ...; break\<close>\<close>

fun first_containing :: "string list \<Rightarrow> (string, string) dict \<Rightarrow> string option" where
  "first_containing ws [] = None"
| "first_containing ws ((secname, content) # rest) =
     (if list_ex (\<lambda>word. str_in word secname) ws then Some content
      else first_containing ws rest)"

definition classify_sections :: "wiki_info \<Rightarrow> (string, string) dict \<Rightarrow> wiki_info" where
  "classify_sections out0 sections =
     (let out1 = out0\<lparr>w_summary :=
            py_or (py_or (dict_get sections ''summary'') (dict_get sections ''introduction'')) None\<rparr>;
          out2 = (case first_present syllabus_keys sections of
                    Some v \<Rightarrow> out1\<lparr>w_syllabus := Some v\<rparr> | None \<Rightarrow> out1);
          out3 = (case first_present pattern_keys sections of
                    Some v \<Rightarrow> out2\<lparr>w_pattern := Some v\<rparr> | None \<Rightarrow> out2);
          out4 = (if \<not> truthy (w_syllabus out3)
                  then (case first_containing syllabus_words sections of
                          Some c \<Rightarrow> out3\<lparr>w_syllabus := Some c\<rparr> | None \<Rightarrow> out3)
                  else out3);
          out5 = (if \<not> truthy (w_pattern out4)
                  then (case first_containing pattern_words sections of
                          Some c \<Rightarrow> out4\<lparr>w_pattern := Some c\<rparr> | None \<Rightarrow> out4)
                  else out4)
      in out5\<lparr>other_sections := sections\<rparr>)"

section \<open>Exceptions, external calls and their trace\<close>

datatype pval = PStr string | PInt int

text \<open>
  The calls that leave the process: \<open>requests.get(url, params=...)\<close> and the
  \<open>search().list(...).execute()\<close> of the YouTube client.
\<close>

datatype call =
    HttpGet string "(string \<times> pval) list"
  | YouTubeSearchList "(string \<times> pval) list"

text \<open>A JSON value as Python holds it after \<open>r.json()\<close>; \<open>JNull\<close> is \<open>None\<close>.\<close>

datatype json_value =
    JNull | JBool bool | JNum int | JStr string
  | JList "json_value list" | JDict "(string \<times> json_value) list"

text \<open>Truth value of a Python value, as \<open>or\<close> and \<open>not\<close> test it.\<close>

fun json_truthy :: "json_value \<Rightarrow> bool" where
  "json_truthy JNull = False"
| "json_truthy (JBool b) = b"
| "json_truthy (JNum n) = (n \<noteq> 0)"
| "json_truthy (JStr s) = (s \<noteq> [])"
| "json_truthy (JList xs) = (xs \<noteq> [])"
| "json_truthy (JDict kvs) = (kvs \<noteq> [])"

text \<open>
  The JSON bodies, by the keys that the code reads; a key that may be absent is an
  \<open>option\<close>. The title of a search hit is any JSON value: line 43 returns it as it is.
\<close>

record search_hit =
  hit_title :: "json_value option"

record query_obj =
  j_search :: "search_hit list option"

record volume_info =
  vi_title :: "string option"
  vi_authors :: "string list option"
  vi_publisher :: "string option"
  vi_infoLink :: "string option"

record snippet_obj =
  sn_title :: "string option"

record id_obj =
  id_videoId :: "string option"
  id_playlistId :: "string option"

record json_item =
  j_volumeInfo :: "volume_info option"
  j_snippet :: "snippet_obj option"
  j_id :: "id_obj option"

record json_body =
  j_query :: "query_obj option"
  j_items :: "json_item list option"

record response =
  status_code :: nat
  body_text :: string
  body_json :: "exn + json_body"

text \<open>
  The world outside: what each call answers (it may depend on the calls made so far), the
  configuration read at import time, and the HTML parser.
\<close>

record world =
  http_get :: "call list \<Rightarrow> string \<Rightarrow> (string \<times> pval) list \<Rightarrow> exn + response"
  youtube_execute :: "call list \<Rightarrow> (string \<times> pval) list \<Rightarrow> exn + json_body"
  HAVE_YT :: bool
  YOUTUBE_API_KEY :: "string option"
  html_parser :: "string \<Rightarrow> exn + soup"

text \<open>
  A computation takes the trace of calls made so far and returns a value or the exception
  it raised, with the extended trace.
\<close>

type_synonym 'a io = "call list \<Rightarrow> (exn + 'a) \<times> call list"

definition return :: "'a \<Rightarrow> 'a io" where
  "return x = (\<lambda>t. (Inr x, t))"

definition raise :: "exn \<Rightarrow> 'a io" where
  "raise e = (\<lambda>t. (Inl e, t))"

definition bind :: "'a io \<Rightarrow> ('a \<Rightarrow> 'b io) \<Rightarrow> 'b io" where
  "bind m f = (\<lambda>t. case m t of (Inl e, t') \<Rightarrow> (Inl e, t') | (Inr x, t') \<Rightarrow> f x t')"

text \<open>\<open>try: m except Exception: h\<close>\<close>

definition try_except :: "'a io \<Rightarrow> (exn \<Rightarrow> 'a io) \<Rightarrow> 'a io" where
  "try_except m h = (\<lambda>t. case m t of (Inl e, t') \<Rightarrow> h e t' | (Inr x, t') \<Rightarrow> (Inr x, t'))"

definition lift :: "exn + 'a \<Rightarrow> 'a io" where
  "lift r = (\<lambda>t. (r, t))"

fun map_io :: "('a \<Rightarrow> 'b io) \<Rightarrow> 'a list \<Rightarrow> 'b list io" where
  "map_io f [] = return []"
| "map_io f (x # xs) = bind (f x) (\<lambda>y. bind (map_io f xs) (\<lambda>ys. return (y # ys)))"

definition requests_get :: "world \<Rightarrow> string \<Rightarrow> (string \<times> pval) list \<Rightarrow> response io" where
  "requests_get W url params = (\<lambda>t. (http_get W t url params, t @ [HttpGet url params]))"

definition youtube_search_list :: "world \<Rightarrow> (string \<times> pval) list \<Rightarrow> json_body io" where
  "youtube_search_list W params = (\<lambda>t. (youtube_execute W t params, t @ [YouTubeSearchList params]))"

definition raise_for_status :: "response \<Rightarrow> unit io" where
  "raise_for_status r =
     (if 400 \<le> status_code r \<and> status_code r < 600 then raise HTTPError else return ())"

text \<open>\<open>d[key]\<close> on a JSON object: \<open>KeyError\<close> when the key is absent.\<close>

definition subscript :: "'a option \<Rightarrow> 'a io" where
  "subscript x = (case x of None \<Rightarrow> raise KeyError | Some v \<Rightarrow> return v)"

text \<open>\<open>d.get(key, default)\<close>\<close>

definition get_default :: "'a option \<Rightarrow> 'a \<Rightarrow> 'a" where
  "get_default x d = (case x of None \<Rightarrow> d | Some v \<Rightarrow> v)"

section \<open>Wikipedia search and fetch\<close>

definition GOOGLE_BOOKS_BASE :: string where
  "GOOGLE_BOOKS_BASE = ''https://www.googleapis.com/books/v1/volumes''"

definition WIKIPEDIA_SEARCH_API :: string where
  "WIKIPEDIA_SEARCH_API = ''https://en.wikipedia.org/w/api.php''"

definition WIKIPEDIA_REST_PAGE :: "string \<Rightarrow> string" where
  "WIKIPEDIA_REST_PAGE slug = ''https://en.wikipedia.org/api/rest_v1/page/html/'' @ slug"

definition wiki_search_params :: "string \<Rightarrow> (string \<times> pval) list" where
  "wiki_search_params query_s =
     [(''action'', PStr ''query''), (''list'', PStr ''search''), (''srsearch'', PStr query_s),
      (''format'', PStr ''json''), (''srlimit'', PInt 5)]"

definition wiki_search_title :: "world \<Rightarrow> string \<Rightarrow> json_value io" where
  "wiki_search_title W query_s =
     try_except
       (bind (requests_get W WIKIPEDIA_SEARCH_API (wiki_search_params query_s)) (\<lambda>r.
        bind (raise_for_status r) (\<lambda>_.
        bind (lift (body_json r)) (\<lambda>body.
          let results = get_default (j_search (get_default (j_query body) \<lparr>j_search = None\<rparr>)) []
          in case results of
               [] \<Rightarrow> return JNull
             | hit # _ \<Rightarrow> subscript (hit_title hit)))))
       (\<lambda>e. return JNull)"

text \<open>
  \<open>title.replace(" ", "_")\<close> on line 50 stands before the \<open>try\<close>: a title that is not a
  \<open>str\<close> has no \<open>replace\<close>.
\<close>

definition wiki_get_html :: "world \<Rightarrow> json_value \<Rightarrow> string option io" where
  "wiki_get_html W title =
     (case title of
        JStr s \<Rightarrow>
          (let slug = replace_char CHR '' '' CHR ''_'' s;
               url = WIKIPEDIA_REST_PAGE slug
           in try_except
                (bind (requests_get W url []) (\<lambda>r.
                   return (if status_code r = 200 then Some (body_text r) else None)))
                (\<lambda>e. return None))
      | _ \<Rightarrow> raise AttributeError)"

text \<open>Line 87: \<open>wiki_search_title(query + " exam") or wiki_search_title(query)\<close>.\<close>

definition resolve_title :: "world \<Rightarrow> string \<Rightarrow> json_value io" where
  "resolve_title W query_s =
     bind (wiki_search_title W (query_s @ '' exam'')) (\<lambda>t1.
       if json_truthy t1 then return t1 else wiki_search_title W query_s)"

text \<open>
  The title as the record keeps it. Line 90 stores the title before line 91 fetches the
  page; the record is seen only when line 91 returns, and then the title is a \<open>str\<close>.
\<close>

fun title_str :: "json_value \<Rightarrow> string option" where
  "title_str (JStr s) = Some s"
| "title_str _ = None"

definition find_relevant_wiki_info :: "world \<Rightarrow> string \<Rightarrow> wiki_info io" where
  "find_relevant_wiki_info W query_s =
     (let out0 = empty_wiki_info
      in bind (resolve_title W query_s) (\<lambda>title.
           if title = JNull then return out0
           else bind (wiki_get_html W title) (\<lambda>html.
                  let out1 = out0\<lparr>w_title := title_str title\<rparr>
                  in case html of
                       None \<Rightarrow> return out1
                     | Some h \<Rightarrow>
                         bind (lift (extract_sections_from_wiki_html (html_parser W) h))
                           (\<lambda>sections. return (classify_sections out1 sections)))))"

section \<open>YouTube search\<close>

record video =
  v_title :: string
  v_videoId :: string
  v_url :: string

record playlist =
  p_title :: string
  p_playlistId :: string
  p_url :: string

definition youtube_params :: "string \<Rightarrow> int \<Rightarrow> string \<Rightarrow> (string \<times> pval) list" where
  "youtube_params q max_results ty =
     [(''q'', PStr q), (''part'', PStr ''snippet''), (''maxResults'', PInt max_results),
      (''type'', PStr ty), (''relevanceLanguage'', PStr ''en'')]"

definition video_of_item :: "json_item \<Rightarrow> video io" where
  "video_of_item item =
     bind (subscript (j_snippet item)) (\<lambda>sn.
     bind (subscript (sn_title sn)) (\<lambda>title.
     bind (subscript (j_id item)) (\<lambda>i.
     bind (subscript (id_videoId i)) (\<lambda>vid.
       return \<lparr>v_title = title, v_videoId = vid,
               v_url = ''https://www.youtube.com/watch?v='' @ vid\<rparr>))))"

definition search_youtube_videos :: "world \<Rightarrow> string \<Rightarrow> int \<Rightarrow> video list io" where
  "search_youtube_videos W query_s max_results =
     (if \<not> HAVE_YT W \<or> \<not> truthy (YOUTUBE_API_KEY W) then return []
      else try_except
             (bind (youtube_search_list W
                      (youtube_params (query_s @ '' preparation'') max_results ''video'')) (\<lambda>resp.
                map_io video_of_item (get_default (j_items resp) [])))
             (\<lambda>e. return []))"

definition search_youtube_playlist :: "world \<Rightarrow> string \<Rightarrow> playlist option io" where
  "search_youtube_playlist W query_s =
     (if \<not> HAVE_YT W \<or> \<not> truthy (YOUTUBE_API_KEY W) then return None
      else try_except
             (bind (youtube_search_list W
                      (youtube_params (query_s @ '' preparation playlist'') 1 ''playlist'')) (\<lambda>resp.
                case get_default (j_items resp) [] of
                  [] \<Rightarrow> return None
                | item # _ \<Rightarrow>
                    bind (subscript (j_id item)) (\<lambda>i.
                    bind (subscript (id_playlistId i)) (\<lambda>playlist_id.
                    bind (subscript (j_snippet item)) (\<lambda>sn.
                    bind (subscript (sn_title sn)) (\<lambda>title.
                      return (Some \<lparr>p_title = title, p_playlistId = playlist_id,
                                p_url = ''https://www.youtube.com/playlist?list='' @ playlist_id\<rparr>)))))))
             (\<lambda>e. return None))"

section \<open>Google Books suggestions\<close>

record book =
  b_title :: "string option"
  b_authors :: "string list option"
  b_publisher :: "string option"
  b_infoLink :: "string option"

definition book_of_item :: "json_item \<Rightarrow> book" where
  "book_of_item it =
     (let info = get_default (j_volumeInfo it)
                   \<lparr>vi_title = None, vi_authors = None, vi_publisher = None, vi_infoLink = None\<rparr>
      in \<lparr>b_title = vi_title info, b_authors = vi_authors info,
          b_publisher = vi_publisher info, b_infoLink = vi_infoLink info\<rparr>)"

definition books_params :: "string \<Rightarrow> int \<Rightarrow> (string \<times> pval) list" where
  "books_params query_s max_results =
     [(''q'', PStr (query_s @ '' preparation OR '' @ query_s @ '' syllabus OR '' @ query_s @ '' guide'')),
      (''maxResults'', PInt max_results)]"

text \<open>\<open>xs[:n]\<close> for an \<open>int\<close> bound: a negative \<open>n\<close> counts from the end.\<close>

definition slice_to :: "int \<Rightarrow> 'a list \<Rightarrow> 'a list" where
  "slice_to n xs = (if 0 \<le> n then take (nat n) xs else take (length xs - nat (- n)) xs)"

definition search_google_books :: "world \<Rightarrow> string \<Rightarrow> int \<Rightarrow> book list io" where
  "search_google_books W query_s max_results =
     try_except
       (bind (requests_get W GOOGLE_BOOKS_BASE (books_params query_s max_results)) (\<lambda>r.
        bind (raise_for_status r) (\<lambda>_.
        bind (lift (body_json r)) (\<lambda>body.
          let items = slice_to max_results (get_default (j_items body) [])
          in return (map book_of_item items)))))
       (\<lambda>e. return [])"

section \<open>Free PYQs from Examsnet and Selfstudys\<close>

record source =
  src_site :: string
  src_exam :: string
  src_link :: string

record pyq =
  pyq_site :: string
  pyq_exam :: string
  pyq_title :: string
  pyq_link :: string

definition examsnet_base :: string where
  "examsnet_base = ''https://www.examsnet.com''"

definition selfstudys_base :: string where
  "selfstudys_base = ''https://www.selfstudys.com''"

definition neet_url :: string where
  "neet_url = examsnet_base @ ''/exams/neet-chapterwise-previous-question-papers-online''"

definition jee_url :: string where
  "jee_url = examsnet_base @ ''/exams/jee-mains-chapterwise-previous-year-questions-online''"

definition neet_self :: string where
  "neet_self = selfstudys_base @ ''/books/neet-previous-year-paper/page/year-wise''"

definition jee_self :: string where
  "jee_self = selfstudys_base @ ''/books/jee-main-previous-year-paper/page/year-wise''"

text \<open>Lines 215 to 234: the list \<open>links\<close> of pages to scrape.\<close>

definition registered_links :: "string \<Rightarrow> source list" where
  "registered_links exam_query =
     (let exam_query_lower = lower exam_query;
          links0 = [];
          links1 =
            (if str_in ''neet'' exam_query_lower
             then links0 @ [\<lparr>src_site = ''Examsnet'', src_exam = ''NEET'', src_link = neet_url\<rparr>]
             else if str_in ''jee'' exam_query_lower
             then links0 @ [\<lparr>src_site = ''Examsnet'', src_exam = ''JEE Mains'', src_link = jee_url\<rparr>]
             else links0);
          links2 =
            (if str_in ''neet'' exam_query_lower
             then links1 @ [\<lparr>src_site = ''Selfstudys'', src_exam = ''NEET'', src_link = neet_self\<rparr>]
             else if str_in ''jee'' exam_query_lower
             then links1 @ [\<lparr>src_site = ''Selfstudys'', src_exam = ''JEE Mains'', src_link = jee_self\<rparr>]
             else links1)
      in links2)"

text \<open>
  \<open>soup.find_all("a", href=True)\<close>: the anchors that carry an \<open>href\<close>, in document order,
  each with its \<open>href\<close>. The attribute list of a tag is its attribute dict.
\<close>

definition anchor_href :: "node \<Rightarrow> (string \<times> node) option" where
  "anchor_href n =
     (case n of
        Tag nm attrs cs \<Rightarrow>
          (if nm = ''a'' then map_option (\<lambda>h. (h, n)) (map_of attrs ''href'') else None)
      | _ \<Rightarrow> None)"

definition find_all_a :: "soup \<Rightarrow> (string \<times> node) list" where
  "find_all_a s = List.map_filter anchor_href (descendants s)"

definition keep_anchor :: "string \<Rightarrow> string \<Rightarrow> bool" where
  "keep_anchor href txt =
     (str_in ''pdf'' (lower href) \<or> str_in ''previous'' (lower txt) \<or> str_in ''paper'' (lower txt))"

text \<open>Lines 249 and 250.\<close>

definition resolve_href :: "string \<Rightarrow> string \<Rightarrow> string" where
  "resolve_href page href =
     (if \<not> startswith href ''http''
      then rstrip_chars CHR ''/'' page @ ''/'' @ lstrip_chars CHR ''/'' href
      else href)"

text \<open>The body of \<open>for a in soup.find_all("a", href=True)\<close>.\<close>

definition anchor_step :: "source \<Rightarrow> pyq list \<Rightarrow> string \<times> node \<Rightarrow> pyq list" where
  "anchor_step item scraped_links ha =
     (let href = fst ha;
          txt = get_text_strip (snd ha)
      in if keep_anchor href txt
         then scraped_links @
                [\<lparr>pyq_site = src_site item, pyq_exam = src_exam item, pyq_title = txt,
                  pyq_link = resolve_href (src_link item) href\<rparr>]
         else scraped_links)"

text \<open>The loop \<open>for item in links\<close>, lines 238 to 253, on the accumulator \<open>scraped_links\<close>.\<close>

fun scrape_loop :: "world \<Rightarrow> source list \<Rightarrow> pyq list \<Rightarrow> pyq list io" where
  "scrape_loop W [] scraped_links = return scraped_links"
| "scrape_loop W (item # items) scraped_links =
     bind (try_except
             (bind (requests_get W (src_link item) []) (\<lambda>r.
              bind (raise_for_status r) (\<lambda>_.
              bind (lift (html_parser W (body_text r))) (\<lambda>soup.
                return (foldl (anchor_step item) scraped_links (find_all_a soup))))))
             (\<lambda>e. return scraped_links))
          (\<lambda>scraped_links'. scrape_loop W items scraped_links')"

definition fetch_free_pyqs_links :: "world \<Rightarrow> string \<Rightarrow> pyq list io" where
  "fetch_free_pyqs_links W exam_query =
     bind (scrape_loop W (registered_links exam_query) []) (\<lambda>scraped_links.
       return (take 5 scraped_links))"

section \<open>Main fetch function\<close>

record exam_info =
  query :: string
  wikipedia :: wiki_info
  videos :: "video list"
  playlist_of :: "playlist option"
  books :: "book list"
  free_pyqs :: "pyq list"

definition fetch_exam_info_universal :: "world \<Rightarrow> string \<Rightarrow> bool \<Rightarrow> bool \<Rightarrow> exam_info io" where
  "fetch_exam_info_universal W exam_query include_videos include_books =
     bind (find_relevant_wiki_info W exam_query) (\<lambda>w.
     bind (if include_videos then search_youtube_videos W exam_query 6 else return []) (\<lambda>vs.
     bind (if include_videos then search_youtube_playlist W exam_query else return None) (\<lambda>pl.
     bind (if include_books then search_google_books W exam_query 6 else return []) (\<lambda>bs.
     bind (if include_books then fetch_free_pyqs_links W exam_query else return []) (\<lambda>ps.
       return \<lparr>query = exam_query, wikipedia = w, videos = vs, playlist_of = pl,
               books = bs, free_pyqs = ps\<rparr>)))))"

section \<open>CLI demonstration\<close>

text \<open>
  What a run of the script leaves behind: the chunks written to standard output (the
  \<open>input\<close> prompt included), and how it ended.
\<close>

datatype ending = Finished | Exited nat | Crashed exn

record run =
  printed :: "string list"
  ended :: ending

text \<open>\<open>print(a, b, ...)\<close>: the arguments separated by a space, then a newline.\<close>

definition print :: "string list \<Rightarrow> string" where
  "print args = join '' '' args @ [CHR 0x0A]"

text \<open>\<open>str(x)\<close> of an optional string inside an f-string.\<close>

definition str_opt :: "string option \<Rightarrow> string" where
  "str_opt x = (case x of None \<Rightarrow> ''None'' | Some s \<Rightarrow> s)"

definition banner_text :: string where
  "banner_text =
     print [''Universal Exam Info Fetcher (Wikipedia + YouTube + Google Books + Solved PYQs)'']"

definition prompt_text :: string where
  "prompt_text = ''Enter exam name (e.g., NEET, JEE Main, CLAT, UPSC, CUET, SSC CGL): ''"

definition report_wikipedia :: "wiki_info \<Rightarrow> string list" where
  "report_wikipedia w =
     (if truthy (w_title w) then [print [''Wikipedia Page Title:'', str_opt (w_title w)]] else [])
     @ (if truthy (w_summary w)
        then [print [CHR 0x0A # ''Summary (lead):'' @ [CHR 0x0A],
                     take 1000 (str_opt (w_summary w)),
                     if length (str_opt (w_summary w)) > 1000 then ''...'' else []]]
        else [])
     @ (if truthy (w_pattern w)
        then [print [CHR 0x0A # ''Exam Pattern / Format:'' @ [CHR 0x0A],
                     take 1500 (str_opt (w_pattern w))]]
        else [])
     @ (if truthy (w_syllabus w)
        then [print [CHR 0x0A # ''Syllabus / Curriculum (excerpt):'' @ [CHR 0x0A],
                     take 1500 (str_opt (w_syllabus w))]]
        else [])
     @ (if other_sections w \<noteq> []
        then print [CHR 0x0A # ''Other sections found on Wikipedia (headings):'']
             # map (\<lambda>k. print ['' -'', k]) (take 15 (map fst (other_sections w)))
        else [])"

definition report_video :: "video \<Rightarrow> string" where
  "report_video v = print ['' - '' @ v_title v @ ''  ('' @ v_url v @ '')'']"

definition report_book :: "book \<Rightarrow> string" where
  "report_book b =
     print ['' - '' @ str_opt (b_title b) @ '' | ''
            @ join '', '' (get_default (b_authors b) [])
            @ '' - '' @ str_opt (b_infoLink b)]"

definition report_pyq :: "pyq \<Rightarrow> string" where
  "report_pyq p =
     (let title = (if pyq_title p \<noteq> [] then pyq_title p else pyq_exam p)
      in print ['' - '' @ title @ '' | '' @ pyq_site p @ '': '' @ pyq_link p])"

definition report :: "exam_info \<Rightarrow> string list" where
  "report info =
     [print [CHR 0x0A # ''=== Result Summary ==='' @ [CHR 0x0A]],
      print [''Query:'', query info]]
     @ report_wikipedia (wikipedia info)
     @ (if videos info \<noteq> []
        then print [CHR 0x0A # ''Suggested Videos:''] # map report_video (videos info)
        else [print [CHR 0x0A # ''YouTube results not available (no API key or google client).'']])
     @ (case playlist_of info of
          Some p \<Rightarrow>
            [print [CHR 0x0A # ''Suggested YouTube Playlist:'' @ [CHR 0x0A] @ '' - ''
                    @ p_title p @ '' ('' @ p_url p @ '')'']]
        | None \<Rightarrow>
            [print [CHR 0x0A #
               ''YouTube playlist not available (no API key, google client, or no results).'']])
     @ (if books info \<noteq> []
        then print [CHR 0x0A # ''Suggested Books:''] # map report_book (books info)
        else [print [CHR 0x0A # ''No book suggestions found.'']])
     @ (if free_pyqs info \<noteq> []
        then print [CHR 0x0A # ''Free Solved PYQs Links (Examsnet / Selfstudys):'']
             # map report_pyq (free_pyqs info)
        else [print [CHR 0x0A # ''No free PYQs links found.'']])
     @ [print [CHR 0x0A # ''--- End ---'' @ [CHR 0x0A]]]"

text \<open>
  The script body under \<open>if __name__ == "__main__"\<close>. \<open>stdin_line\<close> is the line that
  \<open>input\<close> reads, \<open>None\<close> at end of input.
\<close>

definition main :: "world \<Rightarrow> string option \<Rightarrow> call list \<Rightarrow> run \<times> call list" where
  "main W stdin_line t =
     (let out0 = [banner_text, prompt_text]
      in case stdin_line of
           None \<Rightarrow> (\<lparr>printed = out0, ended = Crashed EOFError\<rparr>, t)
         | Some line \<Rightarrow>
             (let q = strip line
              in if q = []
                 then (\<lparr>printed = out0 @ [print [''No query entered. Exiting.'']],
                        ended = Exited 0\<rparr>, t)
                 else (case fetch_exam_info_universal W q True True t of
                         (Inl e, t') \<Rightarrow> (\<lparr>printed = out0, ended = Crashed e\<rparr>, t')
                       | (Inr info, t') \<Rightarrow>
                           (\<lparr>printed = out0 @ report info, ended = Finished\<rparr>, t'))))"

section \<open>Scrape order, as the specification words it\<close>

text \<open>
  The entry made from a kept anchor, the kept anchors of one page in document order, and
  the pages in the order of the registered sites. A page that cannot be fetched or parsed
  gives nothing.
\<close>

definition pyq_entry :: "source \<Rightarrow> string \<times> node \<Rightarrow> pyq" where
  "pyq_entry item ha =
     \<lparr>pyq_site = src_site item, pyq_exam = src_exam item, pyq_title = get_text_strip (snd ha),
      pyq_link = resolve_href (src_link item) (fst ha)\<rparr>"

definition matching_entries :: "source \<Rightarrow> soup \<Rightarrow> pyq list" where
  "matching_entries item s =
     map (pyq_entry item)
       (filter (\<lambda>ha. keep_anchor (fst ha) (get_text_strip (snd ha))) (find_all_a s))"

definition page_entries :: "world \<Rightarrow> source \<Rightarrow> exn + response \<Rightarrow> pyq list" where
  "page_entries W item outcome =
     (case outcome of
        Inl e \<Rightarrow> []
      | Inr r \<Rightarrow>
          if 400 \<le> status_code r \<and> status_code r < 600 then []
          else (case html_parser W (body_text r) of
                  Inl e \<Rightarrow> []
                | Inr soup \<Rightarrow> matching_entries item soup))"

fun scrape_order :: "world \<Rightarrow> source list \<Rightarrow> call list \<Rightarrow> pyq list" where
  "scrape_order W [] t = []"
| "scrape_order W (item # items) t =
     page_entries W item (http_get W t (src_link item) [])
     @ scrape_order W items (t @ [HttpGet (src_link item) []])"

section \<open>Vocabulary of the properties\<close>

text \<open>The keys of all headings of a document, whether or not text follows them.\<close>

definition heading_names :: "soup \<Rightarrow> string list" where
  "heading_names s = map (\<lambda>hs. head_key (fst hs)) (headers s)"

text \<open>
  An HTTP call has failed when the transport raised (connection error, timeout) or the
  status is one that \<open>raise_for_status\<close> rejects.
\<close>

definition http_failed :: "exn + response \<Rightarrow> bool" where
  "http_failed outcome =
     (case outcome of Inl e \<Rightarrow> True | Inr r \<Rightarrow> 400 \<le> status_code r \<and> status_code r < 600)"

text \<open>
  A URI reference is relative when it does not begin with a scheme and a colon (RFC 3986,
  section 4.1); a scheme is a letter followed by letters, digits, "+", "-" or ".".
\<close>

definition is_alpha :: "char \<Rightarrow> bool" where
  "is_alpha c = (let n = (of_char c :: nat) in (65 \<le> n \<and> n \<le> 90) \<or> (97 \<le> n \<and> n \<le> 122))"

definition is_scheme_char :: "char \<Rightarrow> bool" where
  "is_scheme_char c =
     (let n = (of_char c :: nat)
      in is_alpha c \<or> (48 \<le> n \<and> n \<le> 57) \<or> c = CHR ''+'' \<or> c = CHR ''-'' \<or> c = CHR ''.'')"

definition has_scheme :: "string \<Rightarrow> bool" where
  "has_scheme s =
     (let pre = takeWhile (\<lambda>c. c \<noteq> CHR '':'') s
      in pre \<noteq> [] \<and> length pre < length s \<and> is_alpha (hd pre) \<and> list_all is_scheme_char pre)"

definition is_relative_reference :: "string \<Rightarrow> bool" where
  "is_relative_reference s = (\<not> has_scheme s)"

text \<open>A title as \<open>wiki_search_title\<close> is annotated to return it: \<open>Optional[str]\<close>.\<close>

definition title_ok :: "json_value \<Rightarrow> bool" where
  "title_ok v = (case v of JNull \<Rightarrow> True | JStr s \<Rightarrow> True | _ \<Rightarrow> False)"

text \<open>Fetching a page has failed when the transport raised or the status is not 200.\<close>

definition page_failed :: "exn + response \<Rightarrow> bool" where
  "page_failed outcome = (case outcome of Inl e \<Rightarrow> True | Inr r \<Rightarrow> status_code r \<noteq> 200)"

text \<open>The kinds of calls, by the service they reach.\<close>

definition is_wiki_call :: "call \<Rightarrow> bool" where
  "is_wiki_call c =
     (case c of
        HttpGet url params \<Rightarrow> url = WIKIPEDIA_SEARCH_API \<or> startswith url (WIKIPEDIA_REST_PAGE [])
      | YouTubeSearchList params \<Rightarrow> False)"

definition is_youtube_call :: "call \<Rightarrow> bool" where
  "is_youtube_call c = (case c of HttpGet url params \<Rightarrow> False | YouTubeSearchList params \<Rightarrow> True)"

definition is_books_call :: "call \<Rightarrow> bool" where
  "is_books_call c =
     (case c of HttpGet url params \<Rightarrow> url = GOOGLE_BOOKS_BASE | YouTubeSearchList params \<Rightarrow> False)"

definition is_archive_call :: "call \<Rightarrow> bool" where
  "is_archive_call c =
     (case c of
        HttpGet url params \<Rightarrow> url \<in> {neet_url, jee_url, neet_self, jee_self}
      | YouTubeSearchList params \<Rightarrow> False)"

section \<open>Concrete worlds and documents\<close>

text \<open>A world in which every request times out and no API key is configured.\<close>

definition offline_world :: world where
  "offline_world =
     \<lparr>http_get = (\<lambda>t url params. Inl Timeout),
      youtube_execute = (\<lambda>t params. Inl GoogleApiError),
      HAVE_YT = True, YOUTUBE_API_KEY = Some [],
      html_parser = (\<lambda>html. Inr [])\<rparr>"

text \<open>A page of anchors, and a world that serves it for every request.\<close>

definition demo_page :: soup where
  "demo_page =
     [Tag ''div'' []
        [Tag ''a'' [(''href'', ''papers/2023.pdf'')] [NavigableString '' 2023 ''],
         Tag ''a'' [(''href'', ''/about'')] [NavigableString ''About us''],
         Tag ''a'' [(''href'', ''https://cdn.example.org/q.PDF'')] [],
         Tag ''a'' [(''href'', ''/p1'')] [NavigableString ''Previous Year Paper 1''],
         Tag ''a'' [(''href'', ''/p2'')]
           [NavigableString ''Sample '', Tag ''b'' [] [NavigableString ''PAPER'']],
         Tag ''a'' [(''name'', ''top'')] [NavigableString ''paper anchor without href''],
         Tag ''a'' [(''href'', ''p3.pdf'')] [NavigableString ''three''],
         Tag ''a'' [(''href'', ''p4.pdf'')] [NavigableString ''four'']]]"

definition demo_response :: response where
  "demo_response =
     \<lparr>status_code = 200, body_text = ''<div>...</div>'', body_json = Inl JSONDecodeError\<rparr>"

definition demo_world :: world where
  "demo_world =
     \<lparr>http_get = (\<lambda>t url params. Inr demo_response),
      youtube_execute = (\<lambda>t params. Inl GoogleApiError),
      HAVE_YT = False, YOUTUBE_API_KEY = None,
      html_parser = (\<lambda>html. Inr demo_page)\<rparr>"


text \<open>
  An encyclopedia page: a lead paragraph, a table that holds a heading, a heading whose name
  contains "format", a heading followed by no text, and the heading "Exam Pattern".
\<close>

definition wiki_page :: soup where
  "wiki_page =
     [Tag ''p'' [] [NavigableString ''Lead '', Tag ''b'' [] [NavigableString ''text'']],
      Tag ''table'' []
        [Tag ''h2'' [] [NavigableString ''Summary''], Tag ''p'' [] [NavigableString ''in a table'']],
      Tag ''h2'' [] [NavigableString ''Test format''],
      Tag ''p'' [] [NavigableString ''Three papers.''],
      Tag ''h2'' [] [NavigableString ''Empty heading''],
      Tag ''span'' [] [NavigableString ''not collected''],
      Tag ''h2'' [] [NavigableString '' Exam Pattern ''],
      Tag ''ul'' [] [Tag ''li'' [] [NavigableString ''MCQ'']],
      Tag ''p'' [] [NavigableString ''  '']]"

text \<open>A page whose first paragraph holds only a space.\<close>

definition blank_page :: soup where
  "blank_page = [Tag ''p'' [] [NavigableString '' '']]"

text \<open>
  A world whose encyclopedia finds one title for every search and serves the given document
  for every page; the video client is not configured.
\<close>

definition wiki_response :: response where
  "wiki_response =
     \<lparr>status_code = 200, body_text = ''<html>'',
      body_json = Inr \<lparr>j_query = Some \<lparr>j_search = Some [\<lparr>hit_title = Some (JStr ''Some Exam'')\<rparr>]\<rparr>,
                       j_items = None\<rparr>\<rparr>"

definition wiki_world :: "soup \<Rightarrow> world" where
  "wiki_world doc =
     \<lparr>http_get = (\<lambda>t url params. Inr wiki_response),
      youtube_execute = (\<lambda>t params. Inl GoogleApiError),
      HAVE_YT = False, YOUTUBE_API_KEY = None,
      html_parser = (\<lambda>html. Inr doc)\<rparr>"

text \<open>A world in which every service answers with content.\<close>

definition full_item :: json_item where
  "full_item =
     \<lparr>j_volumeInfo = Some \<lparr>vi_title = Some ''Guide'', vi_authors = Some [''A. Author''],
                           vi_publisher = None, vi_infoLink = Some ''https://books.example/1''\<rparr>,
      j_snippet = Some \<lparr>sn_title = Some ''Lecture''\<rparr>,
      j_id = Some \<lparr>id_videoId = Some ''v1'', id_playlistId = Some ''p1''\<rparr>\<rparr>"

definition full_body :: json_body where
  "full_body =
     \<lparr>j_query = Some \<lparr>j_search = Some [\<lparr>hit_title = Some (JStr ''Some Exam'')\<rparr>]\<rparr>,
      j_items = Some [full_item]\<rparr>"

definition full_world :: world where
  "full_world =
     \<lparr>http_get = (\<lambda>t url params.
                    Inr \<lparr>status_code = 200, body_text = ''<html>'', body_json = Inr full_body\<rparr>),
      youtube_execute = (\<lambda>t params. Inr full_body),
      HAVE_YT = True, YOUTUBE_API_KEY = Some ''key'',
      html_parser = (\<lambda>html. Inr demo_page)\<rparr>"

text \<open>A page with one anchor whose \<open>href\<close> is the relative reference "httpfoo.pdf".\<close>

definition httpfoo_page :: soup where
  "httpfoo_page = [Tag ''a'' [(''href'', ''httpfoo.pdf'')] [NavigableString ''Foo'']]"

definition httpfoo_world :: world where
  "httpfoo_world =
     \<lparr>http_get = (\<lambda>t url params. Inr demo_response),
      youtube_execute = (\<lambda>t params. Inl GoogleApiError),
      HAVE_YT = False, YOUTUBE_API_KEY = None,
      html_parser = (\<lambda>html. Inr httpfoo_page)\<rparr>"

text \<open>
  A world whose encyclopedia search finds the title "Some Exam" and in which every page is
  served, with status 200, as markup that the parser rejects.
\<close>

definition rejected_page :: response where
  "rejected_page = \<lparr>status_code = 200, body_text = ''<![foo['', body_json = Inl JSONDecodeError\<rparr>"

definition rejecting_world :: world where
  "rejecting_world =
     \<lparr>http_get = (\<lambda>t url params.
                    if url = WIKIPEDIA_SEARCH_API then Inr wiki_response else Inr rejected_page),
      youtube_execute = (\<lambda>t params. Inl GoogleApiError),
      HAVE_YT = False, YOUTUBE_API_KEY = None,
      html_parser = (\<lambda>html. if html = ''<![foo['' then Inl ParserRejectedMarkup else Inr [])\<rparr>"

text \<open>A world whose encyclopedia search answers with the number 5 as the title.\<close>

definition numeric_title_world :: world where
  "numeric_title_world =
     \<lparr>http_get = (\<lambda>t url params.
        Inr \<lparr>status_code = 200, body_text = ''<html>'',
             body_json = Inr \<lparr>j_query = Some \<lparr>j_search = Some [\<lparr>hit_title = Some (JNum 5)\<rparr>]\<rparr>,
                              j_items = None\<rparr>\<rparr>),
      youtube_execute = (\<lambda>t params. Inl GoogleApiError),
      HAVE_YT = False, YOUTUBE_API_KEY = None,
      html_parser = (\<lambda>html. Inr [])\<rparr>"

text \<open>
  Two pages for the classifier: one with the exact labels "Format" and "Pattern" in that
  order, one with no exact label and two headings that match the fallback substrings.
\<close>

definition order_page :: soup where
  "order_page =
     [Tag ''h2'' [] [NavigableString ''Format''],
      Tag ''p'' [] [NavigableString ''Pen and paper.''],
      Tag ''h2'' [] [NavigableString ''Pattern''],
      Tag ''p'' [] [NavigableString ''Two sections.''],
      Tag ''h2'' [] [NavigableString ''Curriculum''],
      Tag ''p'' [] [NavigableString ''Physics.''],
      Tag ''h2'' [] [NavigableString ''Syllabus''],
      Tag ''p'' [] [NavigableString ''Chemistry.'']]"

definition fallback_page :: soup where
  "fallback_page =
     [Tag ''h2'' [] [NavigableString ''History''],
      Tag ''p'' [] [NavigableString ''Since 1990.''],
      Tag ''h2'' [] [NavigableString ''Question paper''],
      Tag ''p'' [] [NavigableString ''One paper.''],
      Tag ''h2'' [] [NavigableString ''Exam structure''],
      Tag ''p'' [] [NavigableString ''Three hours.'']]"

section \<open>Auxiliary facts\<close>

lemmas io_defs = return_def bind_def try_except_def raise_def lift_def

lemma registered_links_cases:
  "registered_links q =
    (if str_in ''neet'' (lower q)
     then [\<lparr>src_site = ''Examsnet'', src_exam = ''NEET'', src_link = neet_url\<rparr>,
           \<lparr>src_site = ''Selfstudys'', src_exam = ''NEET'', src_link = neet_self\<rparr>]
     else if str_in ''jee'' (lower q)
     then [\<lparr>src_site = ''Examsnet'', src_exam = ''JEE Mains'', src_link = jee_url\<rparr>,
           \<lparr>src_site = ''Selfstudys'', src_exam = ''JEE Mains'', src_link = jee_self\<rparr>]
     else [])"
  by (simp add: registered_links_def)

lemma foldl_anchor_step:
  "foldl (anchor_step item) acc has =
     acc @ map (pyq_entry item) (filter (\<lambda>ha. keep_anchor (fst ha) (get_text_strip (snd ha))) has)"
  by (induction has arbitrary: acc) (simp_all add: anchor_step_def pyq_entry_def Let_def)

lemma scrape_loop_eq:
  "scrape_loop W items acc t =
     (Inr (acc @ scrape_order W items t), t @ map (\<lambda>s. HttpGet (src_link s) []) items)"
proof (induction items arbitrary: acc t)
  case Nil
  show ?case by (simp add: return_def)
next
  case (Cons item items)
  show ?case
  proof (cases "http_get W t (src_link item) []")
    case (Inl e)
    then show ?thesis
      by (simp add: io_defs requests_get_def Cons.IH page_entries_def)
  next
    case (Inr r)
    then show ?thesis
      by (simp add: io_defs requests_get_def raise_for_status_def Cons.IH page_entries_def
           foldl_anchor_step matching_entries_def split: sum.splits)
  qed
qed

lemma startswith_iff: "startswith s p \<longleftrightarrow> (\<exists>r. s = p @ r)"
  unfolding startswith_def by (metis append_eq_conv_conj append_take_drop_id)

lemma startswith_append: "startswith a p \<Longrightarrow> startswith (a @ b) p"
  by (auto simp add: startswith_iff)

lemma https_http: "startswith s ''https'' \<Longrightarrow> startswith s ''http''"
  by (auto simp add: startswith_iff)

lemma resolve_href_http:
  "startswith (rstrip_chars CHR ''/'' page) ''http'' \<Longrightarrow> startswith (resolve_href page href) ''http''"
  unfolding resolve_href_def by (simp add: startswith_append)

lemma rstrip_chars_id: "s \<noteq> [] \<Longrightarrow> last s \<noteq> x \<Longrightarrow> rstrip_chars x s = s"
  by (cases s rule: rev_cases) (simp_all add: rstrip_chars_def)

lemma neet_url_https: "startswith neet_url ''https'' \<and> rstrip_chars CHR ''/'' neet_url = neet_url"
  by (simp add: rstrip_chars_id startswith_def neet_url_def examsnet_base_def)

lemma jee_url_https: "startswith jee_url ''https'' \<and> rstrip_chars CHR ''/'' jee_url = jee_url"
  by (simp add: rstrip_chars_id startswith_def jee_url_def examsnet_base_def)

lemma neet_self_https: "startswith neet_self ''https'' \<and> rstrip_chars CHR ''/'' neet_self = neet_self"
  by (simp add: rstrip_chars_id startswith_def neet_self_def selfstudys_base_def)

lemma jee_self_https: "startswith jee_self ''https'' \<and> rstrip_chars CHR ''/'' jee_self = jee_self"
  by (simp add: rstrip_chars_id startswith_def jee_self_def selfstudys_base_def)

lemma registered_links_https:
  "s \<in> set (registered_links q) \<Longrightarrow>
     startswith (src_link s) ''https'' \<and> rstrip_chars CHR ''/'' (src_link s) = src_link s"
  using neet_url_https jee_url_https neet_self_https jee_self_https
  by (auto simp add: registered_links_cases split: if_splits)

section \<open>Keyword gating of the paper-link scraper\<close>

text \<open>
  Claim C3. \<open>fetch_free_pyqs_links\<close> registers its pages by a keyword gate on the lowercased
  query: with "neet" in it, the NEET page of each of the two sites; otherwise, with "jee" in
  it, the JEE page of each site; otherwise nothing, and the result is the empty list without
  any request. The pages requested are exactly the registered ones, in order. The query
  "JEE Main 2024" registers the two JEE pages.
\<close>

theorem fetch_free_pyqs_links_keyword_gate:
  "(str_in ''neet'' (lower q) \<longrightarrow>
      registered_links q =
        [\<lparr>src_site = ''Examsnet'', src_exam = ''NEET'', src_link = neet_url\<rparr>,
         \<lparr>src_site = ''Selfstudys'', src_exam = ''NEET'', src_link = neet_self\<rparr>])
   \<and> (\<not> str_in ''neet'' (lower q) \<and> str_in ''jee'' (lower q) \<longrightarrow>
      registered_links q =
        [\<lparr>src_site = ''Examsnet'', src_exam = ''JEE Mains'', src_link = jee_url\<rparr>,
         \<lparr>src_site = ''Selfstudys'', src_exam = ''JEE Mains'', src_link = jee_self\<rparr>])
   \<and> (\<not> str_in ''neet'' (lower q) \<and> \<not> str_in ''jee'' (lower q) \<longrightarrow>
      registered_links q = [] \<and> fetch_free_pyqs_links W q t = (Inr [], t))
   \<and> snd (fetch_free_pyqs_links W q t)
       = t @ map (\<lambda>s. HttpGet (src_link s) []) (registered_links q)
   \<and> map src_link (registered_links ''JEE Main 2024'') = [jee_url, jee_self]"
proof -
  have jee: "map src_link (registered_links ''JEE Main 2024'') = [jee_url, jee_self]"
    by code_simp
  have tr: "snd (fetch_free_pyqs_links W q t)
      = t @ map (\<lambda>s. HttpGet (src_link s) []) (registered_links q)"
    by (simp add: fetch_free_pyqs_links_def scrape_loop_eq io_defs)
  have none: "registered_links q = [] \<Longrightarrow> fetch_free_pyqs_links W q t = (Inr [], t)"
    by (simp add: fetch_free_pyqs_links_def io_defs)
  show ?thesis using jee tr none by (simp add: registered_links_cases)
qed

theorem fetch_free_pyqs_links_keyword_gate_witness:
  "str_in ''neet'' (lower ''NEET UG'')
   \<and> map src_link (registered_links ''NEET UG'') = [neet_url, neet_self]
   \<and> \<not> str_in ''neet'' (lower ''JEE Main 2024'') \<and> str_in ''jee'' (lower ''JEE Main 2024'')
   \<and> map src_exam (registered_links ''JEE Main 2024'') = [''JEE Mains'', ''JEE Mains'']
   \<and> \<not> str_in ''neet'' (lower ''UPSC'') \<and> \<not> str_in ''jee'' (lower ''UPSC'')
   \<and> fetch_free_pyqs_links offline_world ''UPSC'' [] = (Inr [], [])"
proof -
  have n: "str_in ''neet'' (lower ''NEET UG'')" by code_simp
  have j: "\<not> str_in ''neet'' (lower ''JEE Main 2024'') \<and> str_in ''jee'' (lower ''JEE Main 2024'')"
    by code_simp
  have u: "\<not> str_in ''neet'' (lower ''UPSC'') \<and> \<not> str_in ''jee'' (lower ''UPSC'')"
    by code_simp
  show ?thesis
    using n j u
      fetch_free_pyqs_links_keyword_gate [of "''NEET UG''" offline_world "[]"]
      fetch_free_pyqs_links_keyword_gate [of "''JEE Main 2024''" offline_world "[]"]
      fetch_free_pyqs_links_keyword_gate [of "''UPSC''" offline_world "[]"]
    by simp
qed

section \<open>Truncation of the scraped links\<close>

text \<open>
  Claim C4. For every query and every content of the fetched pages, \<open>fetch_free_pyqs_links\<close>
  returns the first five entries of the scrape order (the registered sites in order, the kept
  anchors of each page in document order), so at most five entries, and never raises.
\<close>

theorem fetch_free_pyqs_links_truncates:
  "fetch_free_pyqs_links W q t =
     (Inr (take 5 (scrape_order W (registered_links q) t)),
      t @ map (\<lambda>s. HttpGet (src_link s) []) (registered_links q))
   \<and> length (take 5 (scrape_order W (registered_links q) t)) \<le> 5"
  by (simp add: fetch_free_pyqs_links_def scrape_loop_eq io_defs)

theorem fetch_free_pyqs_links_truncates_witness:
  "length (scrape_order demo_world (registered_links ''neet'') []) = 12
   \<and> (\<exists>t'. fetch_free_pyqs_links demo_world ''neet'' [] =
         (Inr (take 5 (scrape_order demo_world (registered_links ''neet'') [])), t'))
   \<and> length (take 5 (scrape_order demo_world (registered_links ''neet'') [])) = 5"
proof -
  have a: "length (scrape_order demo_world (registered_links ''neet'') []) = 12"
    by code_simp
  show ?thesis
    using a fetch_free_pyqs_links_truncates [of demo_world "''neet''" "[]"] by simp
qed

section \<open>Resolution of relative links\<close>




section \<open>Returned links are absolute\<close>

lemma page_entries_entry:
  "e \<in> set (page_entries W item outcome) \<Longrightarrow> \<exists>ha. e = pyq_entry item ha"
proof (cases outcome)
  case (Inl x)
  assume "e \<in> set (page_entries W item outcome)"
  with Inl show ?thesis by (simp add: page_entries_def)
next
  case (Inr r)
  assume m: "e \<in> set (page_entries W item outcome)"
  show ?thesis
  proof (cases "html_parser W (body_text r)")
    case (Inl x)
    with m Inr show ?thesis by (simp add: page_entries_def split: if_splits)
  next
    case (Inr soup)
    with m \<open>outcome = Inr r\<close> show ?thesis
      by (auto simp add: page_entries_def matching_entries_def split: if_splits)
  qed
qed

lemma scrape_order_http:
  "e \<in> set (scrape_order W items t) \<Longrightarrow>
   \<forall>s \<in> set items. startswith (rstrip_chars CHR ''/'' (src_link s)) ''http'' \<Longrightarrow>
   startswith (pyq_link e) ''http''"
proof (induction items arbitrary: t)
  case Nil
  then show ?case by simp
next
  case (Cons item items)
  from Cons.prems(1) consider
      (here) "e \<in> set (page_entries W item (http_get W t (src_link item) []))"
    | (later) "e \<in> set (scrape_order W items (t @ [HttpGet (src_link item) []]))"
    by auto
  then show ?case
  proof cases
    case here
    then obtain ha where "e = pyq_entry item ha"
      using page_entries_entry by blast
    then show ?thesis using Cons.prems(2)
      by (simp add: pyq_entry_def resolve_href_http)
  next
    case later
    then show ?thesis using Cons.IH Cons.prems(2) by simp
  qed
qed

lemma has_scheme_https: "has_scheme (''https:'' @ rest)"
  by (simp add: has_scheme_def is_alpha_def is_scheme_char_def)

lemma registered_links_scheme:
  "s \<in> set (registered_links q) \<Longrightarrow> has_scheme (src_link s @ rest)"
  using has_scheme_https
  by (auto simp add: registered_links_cases neet_url_def jee_url_def neet_self_def jee_self_def
        examsnet_base_def selfstudys_base_def split: if_splits)

text \<open>
  Claim C10 (as amended). Every entry returned by \<open>fetch_free_pyqs_links\<close> has a link that
  begins with "http": an \<open>href\<close> that starts with "http" is kept as it is, any other is
  prefixed by the registered page URL, which starts with "https", and is then an absolute
  URI. A link that was kept as it is can still be a relative reference.
\<close>

theorem returned_links_absolute:
  "(\<exists>out t'. fetch_free_pyqs_links W q t = (Inr out, t')
       \<and> (\<forall>e \<in> set out. startswith (pyq_link e) ''http''))
   \<and> (startswith href ''http'' \<longrightarrow> resolve_href page href = href)
   \<and> (\<forall>s \<in> set (registered_links q).
        startswith (src_link s) ''https''
        \<and> (\<not> startswith href ''http'' \<longrightarrow>
             resolve_href (src_link s) href = src_link s @ ''/'' @ lstrip_chars CHR ''/'' href
             \<and> has_scheme (resolve_href (src_link s) href)))"
proof -
  have reg: "\<forall>s \<in> set (registered_links q). startswith (rstrip_chars CHR ''/'' (src_link s)) ''http''"
    using registered_links_https https_http by simp
  have "\<forall>e \<in> set (take 5 (scrape_order W (registered_links q) t)). startswith (pyq_link e) ''http''"
    using scrape_order_http [OF _ reg] by (meson in_set_takeD)
  then have a: "\<exists>out t'. fetch_free_pyqs_links W q t = (Inr out, t')
       \<and> (\<forall>e \<in> set out. startswith (pyq_link e) ''http'')"
    by (simp add: fetch_free_pyqs_links_def scrape_loop_eq io_defs)
  have b: "startswith href ''http'' \<longrightarrow> resolve_href page href = href"
    by (simp add: resolve_href_def)
  have c: "\<forall>s \<in> set (registered_links q).
        startswith (src_link s) ''https''
        \<and> (\<not> startswith href ''http'' \<longrightarrow>
             resolve_href (src_link s) href = src_link s @ ''/'' @ lstrip_chars CHR ''/'' href
             \<and> has_scheme (resolve_href (src_link s) href))"
    using registered_links_https registered_links_scheme by (simp add: resolve_href_def)
  show ?thesis using a b c by blast
qed

theorem returned_links_absolute_witness:
  "map pyq_link (take 5 (scrape_order demo_world (registered_links ''neet'') [])) =
     [neet_url @ ''/papers/2023.pdf'', ''https://cdn.example.org/q.PDF'',
      neet_url @ ''/p1'', neet_url @ ''/p2'', neet_url @ ''/p3.pdf'']
   \<and> (\<exists>out t'. fetch_free_pyqs_links demo_world ''neet'' [] = (Inr out, t')
         \<and> out \<noteq> [] \<and> (\<forall>e \<in> set out. startswith (pyq_link e) ''http''))
   \<and> startswith ''https://cdn.example.org/q.PDF'' ''http''
   \<and> resolve_href neet_url ''https://cdn.example.org/q.PDF'' = ''https://cdn.example.org/q.PDF''
   \<and> registered_links ''neet'' \<noteq> []
   \<and> \<not> startswith ''/p1'' ''http''
   \<and> has_scheme (resolve_href neet_url ''/p1'')"
proof -
  have a: "map pyq_link (take 5 (scrape_order demo_world (registered_links ''neet'') [])) =
     [neet_url @ ''/papers/2023.pdf'', ''https://cdn.example.org/q.PDF'',
      neet_url @ ''/p1'', neet_url @ ''/p2'', neet_url @ ''/p3.pdf'']"
    by code_simp
  have b: "startswith ''https://cdn.example.org/q.PDF'' ''http''"
    by (simp add: startswith_def)
  have c: "hd (registered_links ''neet'') \<in> set (registered_links ''neet'')
           \<and> src_link (hd (registered_links ''neet'')) = neet_url"
    by code_simp
  have c': "registered_links ''neet'' \<noteq> []" by code_simp
  have d: "\<not> startswith ''/p1'' ''http''" by (simp add: startswith_def)
  have e: "fetch_free_pyqs_links demo_world ''neet'' [] =
     (Inr (take 5 (scrape_order demo_world (registered_links ''neet'') [])),
      [] @ map (\<lambda>s. HttpGet (src_link s) []) (registered_links ''neet''))"
    by (simp add: fetch_free_pyqs_links_def scrape_loop_eq io_defs)
  have f: "take 5 (scrape_order demo_world (registered_links ''neet'') []) \<noteq> []"
    using a by auto
  have g: "has_scheme (resolve_href neet_url ''/p1'')"
    using c d returned_links_absolute [of demo_world "''neet''" "[]" "''/p1''" neet_url]
    by metis
  show ?thesis
    using a b c' d e f g
      returned_links_absolute [of demo_world "''neet''" "[]" "''https://cdn.example.org/q.PDF''" neet_url]
    by auto
qed

text \<open>
  On a page whose anchor has the \<open>href\<close> "httpfoo.pdf", the links returned for a NEET query
  are that \<open>href\<close> as it is: relative references.
\<close>

theorem returned_links_absolute_counterexample:
  "map pyq_link (projr (fst (fetch_free_pyqs_links httpfoo_world ''neet'' [])))
     = [''httpfoo.pdf'', ''httpfoo.pdf'']
   \<and> \<not> isl (fst (fetch_free_pyqs_links httpfoo_world ''neet'' []))
   \<and> is_relative_reference ''httpfoo.pdf''"
  by code_simp

section \<open>Blank input at the prompt\<close>

text \<open>
  Claim C8 (as amended). When the line read at the prompt is blank after stripping, the
  script prints the one line "No query entered. Exiting." after the prompt and exits with
  status 0; nothing else is printed and no external call is made.
\<close>

theorem blank_input_prints_notice_and_exits:
  "strip line = [] \<Longrightarrow>
     main W (Some line) t =
       (\<lparr>printed = [banner_text, prompt_text, print [''No query entered. Exiting.'']],
         ended = Exited 0\<rparr>, t)"
  by (simp add: main_def)

lemma strip_blank: "strip [CHR '' '', CHR 0x09, CHR '' ''] = []"
  by code_simp

theorem blank_input_prints_notice_and_exits_witness:
  "strip [CHR '' '', CHR 0x09, CHR '' ''] = []
   \<and> main offline_world (Some [CHR '' '', CHR 0x09, CHR '' '']) [] =
       (\<lparr>printed = [banner_text, prompt_text, print [''No query entered. Exiting.'']],
         ended = Exited 0\<rparr>, [])"
  using strip_blank
    blank_input_prints_notice_and_exits [of "[CHR '' '', CHR 0x09, CHR '' '']" offline_world "[]"]
  by simp

text \<open>
  The run on the empty line: the output does not stop at the prompt.
\<close>

theorem blank_input_output_counterexample:
  "strip '''' = []
   \<and> printed (fst (main offline_world (Some '''') [])) \<noteq> [banner_text, prompt_text]
   \<and> drop 2 (printed (fst (main offline_world (Some '''') [])))
       = [''No query entered. Exiting.'' @ [CHR 0x0A]]"
  by (simp add: main_def strip_def rstrip_def lstrip_def print_def)

section \<open>Sections extracted from a page\<close>

lemma content_parts_nonempty: "x \<in> set (content_parts sibs) \<Longrightarrow> x \<noteq> []"
  by (induction sibs) (auto simp add: Let_def split: if_splits)

lemma join_nonempty: "xs \<noteq> [] \<Longrightarrow> \<forall>x \<in> set xs. x \<noteq> [] \<Longrightarrow> join sep xs \<noteq> []"
  by (induction sep xs rule: join.induct) auto

lemma set_dict_set: "set (dict_set d k v) \<subseteq> insert (k, v) (set d)"
  by (induction d k v rule: dict_set.induct) auto

lemma keys_dict_set: "fst ` set (dict_set d k v) = insert k (fst ` set d)"
  by (induction d k v rule: dict_set.induct) auto

lemma section_step_values:
  "\<forall>kv \<in> set secs. snd kv \<noteq> [] \<Longrightarrow> \<forall>kv \<in> set (section_step secs hs). snd kv \<noteq> []"
proof (cases "content_parts (snd hs) = []")
  case True
  assume "\<forall>kv \<in> set secs. snd kv \<noteq> []"
  with True show ?thesis by (simp add: section_step_def)
next
  case False
  assume a: "\<forall>kv \<in> set secs. snd kv \<noteq> []"
  have "join [CHR 0x0A, CHR 0x0A] (content_parts (snd hs)) \<noteq> []"
    using False content_parts_nonempty by (intro join_nonempty) auto
  with a False show ?thesis
    using set_dict_set [of secs "head_key (fst hs)" "join [CHR 0x0A, CHR 0x0A] (content_parts (snd hs))"]
    by (auto simp add: section_step_def Let_def)
qed

lemma foldl_section_step_values:
  "\<forall>kv \<in> set secs. snd kv \<noteq> [] \<Longrightarrow> \<forall>kv \<in> set (foldl section_step secs hss). snd kv \<noteq> []"
proof (induction hss arbitrary: secs)
  case Nil
  then show ?case by simp
next
  case (Cons hs hss)
  show ?case using Cons.IH [OF section_step_values [OF Cons.prems]] by simp
qed

lemma section_step_keys:
  "fst ` set (section_step secs hs) =
      fst ` set secs \<union> (if content_parts (snd hs) \<noteq> [] then {head_key (fst hs)} else {})"
  by (simp add: section_step_def Let_def keys_dict_set)

lemma foldl_section_step_keys:
  "fst ` set (foldl section_step secs hss) =
     fst ` set secs
     \<union> set (map (\<lambda>hs. head_key (fst hs)) (filter (\<lambda>hs. content_parts (snd hs) \<noteq> []) hss))"
proof (induction hss arbitrary: secs)
  case Nil
  show ?case by simp
next
  case (Cons hs hss)
  show ?case
    unfolding foldl_Cons Cons.IH [of "section_step secs hs"] section_step_keys
    by (cases "content_parts (snd hs) = []") auto
qed

lemma heading_sections_values: "(k, v) \<in> set (heading_sections s) \<Longrightarrow> v \<noteq> []"
  using foldl_section_step_values [of "[]" "headers s"] by (auto simp add: heading_sections_def)

lemma heading_sections_keys:
  "fst ` set (heading_sections s) =
     set (map (\<lambda>hs. head_key (fst hs)) (filter (\<lambda>hs. content_parts (snd hs) \<noteq> []) (headers s)))"
  using foldl_section_step_keys [of "[]" "headers s"] by (simp add: heading_sections_def)

lemma set_setdefault:
  "set (setdefault d k v) = (if map_of d k = None then insert (k, v) (set d) else set d)"
  by (auto simp add: setdefault_def split: option.splits)

text \<open>
  Claim C9. Every value that \<open>extract_sections_from_wiki_html\<close> stores under a key made from
  a heading is a non-empty string; the keys made from headings are those of the headings
  followed by some text, so a heading with no text is left out; only the fallback key
  "summary" can hold the empty string, and then no heading section is named "summary" and
  the lead paragraph is missing or empty. This holds of every document that the parser
  returns.
\<close>

theorem heading_sections_nonempty:
  "(\<forall>kv \<in> set (heading_sections (remove_tables doc)). snd kv \<noteq> [])
   \<and> fst ` set (heading_sections (remove_tables doc)) =
       set (map (\<lambda>hs. head_key (fst hs))
              (filter (\<lambda>hs. content_parts (snd hs) \<noteq> []) (headers (remove_tables doc))))
   \<and> (parser html = Inr doc \<longrightarrow>
        extract_sections_from_wiki_html parser html =
          Inr (setdefault (heading_sections (remove_tables doc)) ''summary''
                 (lead_para (remove_tables doc))))
   \<and> (\<forall>kv \<in> set (setdefault (heading_sections (remove_tables doc)) ''summary''
                     (lead_para (remove_tables doc))).
        snd kv = [] \<longrightarrow>
          fst kv = ''summary''
          \<and> dict_get (heading_sections (remove_tables doc)) ''summary'' = None
          \<and> lead_para (remove_tables doc) = [])"
proof -
  let ?s = "remove_tables doc"
  have a: "\<forall>kv \<in> set (heading_sections ?s). snd kv \<noteq> []"
    using heading_sections_values by auto
  have c: "parser html = Inr doc \<longrightarrow>
       extract_sections_from_wiki_html parser html =
          Inr (setdefault (heading_sections ?s) ''summary'' (lead_para ?s))"
    by (simp add: extract_sections_from_wiki_html_def sections_of_soup_def Let_def)
  have d: "\<forall>kv \<in> set (setdefault (heading_sections ?s) ''summary'' (lead_para ?s)).
        snd kv = [] \<longrightarrow> fst kv = ''summary''
          \<and> dict_get (heading_sections ?s) ''summary'' = None \<and> lead_para ?s = []"
    using a unfolding set_setdefault dict_get_def by (auto split: if_splits)
  show ?thesis using a heading_sections_keys [of ?s] c d by blast
qed

theorem heading_sections_nonempty_witness:
  "heading_sections (remove_tables wiki_page) =
      [(''test format'', ''Three papers.''), (''exam pattern'', ''MCQ'')]
   \<and> heading_names (remove_tables wiki_page) = [''test format'', ''empty heading'', ''exam pattern'']
   \<and> [] \<notin> snd ` set (heading_sections (remove_tables wiki_page))
   \<and> ''empty heading'' \<notin> fst ` set (heading_sections (remove_tables wiki_page))
   \<and> extract_sections_from_wiki_html (\<lambda>h. Inr blank_page) ''x'' = Inr [(''summary'', [])]
   \<and> dict_get (heading_sections (remove_tables blank_page)) ''summary'' = None
   \<and> lead_para (remove_tables blank_page) = []"
proof -
  have a: "heading_sections (remove_tables wiki_page) =
      [(''test format'', ''Three papers.''), (''exam pattern'', ''MCQ'')]"
    by code_simp
  have b: "heading_names (remove_tables wiki_page) = [''test format'', ''empty heading'', ''exam pattern'']"
    by code_simp
  have c: "setdefault (heading_sections (remove_tables blank_page)) ''summary''
             (lead_para (remove_tables blank_page)) = [(''summary'', [])]"
    by code_simp
  have d: "[] \<notin> snd ` set (heading_sections (remove_tables wiki_page))"
    using heading_sections_nonempty [of wiki_page "\<lambda>h. Inr wiki_page" "''x''"] by force
  have e: "''empty heading'' \<notin> fst ` set (heading_sections (remove_tables wiki_page))"
    unfolding a by simp
  have f: "extract_sections_from_wiki_html (\<lambda>h. Inr blank_page) ''x'' = Inr [(''summary'', [])]
        \<and> dict_get (heading_sections (remove_tables blank_page)) ''summary'' = None
        \<and> lead_para (remove_tables blank_page) = []"
    using heading_sections_nonempty [of blank_page "\<lambda>h. Inr blank_page" "''x''"] unfolding c by simp
  show ?thesis using a b d e f by blast
qed

section \<open>The Wikipedia lookup\<close>

lemma bind_Inr: "m t = (Inr x, t') \<Longrightarrow> bind m f t = f x t'"
  by (simp add: bind_def)

lemma bind_Inl: "m t = (Inl e, t') \<Longrightarrow> bind m f t = (Inl e, t')"
  by (simp add: bind_def)

lemma bind_return: "bind (return x) f = f x"
  by (simp add: bind_def return_def)

lemma wiki_search_title_trace:
  "\<exists>r. wiki_search_title W q t = (Inr r, t @ [HttpGet WIKIPEDIA_SEARCH_API (wiki_search_params q)])"
  by (auto simp add: wiki_search_title_def io_defs requests_get_def raise_for_status_def
        subscript_def get_default_def Let_def
      split: sum.splits list.splits option.splits prod.splits)

lemma wiki_get_html_trace:
  "\<exists>r. wiki_get_html W (JStr ti) t =
     (Inr r, t @ [HttpGet (WIKIPEDIA_REST_PAGE (replace_char CHR '' '' CHR ''_'' ti)) []])"
  by (auto simp add: wiki_get_html_def io_defs requests_get_def Let_def
      split: sum.splits prod.splits)

lemma wiki_get_html_not_str:
  "title_str v = None \<Longrightarrow> wiki_get_html W v t = (Inl AttributeError, t)"
  by (cases v) (simp_all add: wiki_get_html_def raise_def)

lemma title_str_Some: "title_str v = Some s \<longleftrightarrow> v = JStr s"
  by (cases v) auto

lemma is_wiki_call_search: "is_wiki_call (HttpGet WIKIPEDIA_SEARCH_API p)"
  by (simp add: is_wiki_call_def)

lemma is_wiki_call_page: "is_wiki_call (HttpGet (WIKIPEDIA_REST_PAGE slug) p)"
  by (simp add: is_wiki_call_def WIKIPEDIA_REST_PAGE_def startswith_def)

lemma resolve_title_trace:
  "\<exists>title new.
     resolve_title W q t =
       (Inr title, t @ HttpGet WIKIPEDIA_SEARCH_API (wiki_search_params (q @ '' exam'')) # new)
     \<and> (\<forall>c \<in> set new. is_wiki_call c)"
proof -
  let ?c1 = "HttpGet WIKIPEDIA_SEARCH_API (wiki_search_params (q @ '' exam''))"
  let ?c2 = "HttpGet WIKIPEDIA_SEARCH_API (wiki_search_params q)"
  obtain r1 where r1: "wiki_search_title W (q @ '' exam'') t = (Inr r1, t @ [?c1])"
    using wiki_search_title_trace by blast
  obtain r2 where r2: "wiki_search_title W q (t @ [?c1]) = (Inr r2, (t @ [?c1]) @ [?c2])"
    using wiki_search_title_trace by blast
  show ?thesis
  proof (cases "json_truthy r1")
    case True
    then have "resolve_title W q t = (Inr r1, t @ ?c1 # [])"
      using r1 by (simp add: resolve_title_def io_defs)
    then show ?thesis by fastforce
  next
    case False
    then have "resolve_title W q t = (Inr r2, t @ ?c1 # [?c2])"
      using r1 r2 by (simp add: resolve_title_def io_defs)
    moreover have "\<forall>c \<in> set [?c2]. is_wiki_call c"
      by (simp add: is_wiki_call_search)
    ultimately show ?thesis by blast
  qed
qed

text \<open>What \<open>find_relevant_wiki_info\<close> does once the title is resolved.\<close>

lemma find_relevant_wiki_info_no_title:
  "resolve_title W q t = (Inr JNull, t1) \<Longrightarrow>
   find_relevant_wiki_info W q t = (Inr empty_wiki_info, t1)"
  by (simp add: find_relevant_wiki_info_def Let_def
        bind_Inr [where m = "resolve_title W q" and t = t] return_def)

lemma find_relevant_wiki_info_bad_title:
  "resolve_title W q t = (Inr v, t1) \<Longrightarrow> v \<noteq> JNull \<Longrightarrow> title_str v = None \<Longrightarrow>
   find_relevant_wiki_info W q t = (Inl AttributeError, t1)"
  by (simp add: find_relevant_wiki_info_def Let_def
        bind_Inr [where m = "resolve_title W q" and t = t]
        bind_Inl [where m = "wiki_get_html W v" and t = t1, OF wiki_get_html_not_str])

lemma find_relevant_wiki_info_no_html:
  "resolve_title W q t = (Inr (JStr ti), t1) \<Longrightarrow> wiki_get_html W (JStr ti) t1 = (Inr None, t2) \<Longrightarrow>
   find_relevant_wiki_info W q t = (Inr (empty_wiki_info\<lparr>w_title := Some ti\<rparr>), t2)"
  by (simp add: find_relevant_wiki_info_def Let_def
        bind_Inr [where m = "resolve_title W q" and t = t]
        bind_Inr [where m = "wiki_get_html W (JStr ti)" and t = t1] return_def)

lemma find_relevant_wiki_info_html:
  "resolve_title W q t = (Inr (JStr ti), t1) \<Longrightarrow>
   wiki_get_html W (JStr ti) t1 = (Inr (Some h), t2) \<Longrightarrow>
   html_parser W h = Inr doc \<Longrightarrow>
   find_relevant_wiki_info W q t =
     (Inr (classify_sections (empty_wiki_info\<lparr>w_title := Some ti\<rparr>) (sections_of_soup doc)), t2)"
  by (simp add: find_relevant_wiki_info_def Let_def
        bind_Inr [where m = "resolve_title W q" and t = t]
        bind_Inr [where m = "wiki_get_html W (JStr ti)" and t = t1]
        extract_sections_from_wiki_html_def io_defs)

lemma find_relevant_wiki_info_rejected:
  "resolve_title W q t = (Inr (JStr ti), t1) \<Longrightarrow>
   wiki_get_html W (JStr ti) t1 = (Inr (Some h), t2) \<Longrightarrow>
   html_parser W h = Inl e \<Longrightarrow>
   find_relevant_wiki_info W q t = (Inl e, t2)"
  by (simp add: find_relevant_wiki_info_def Let_def
        bind_Inr [where m = "resolve_title W q" and t = t]
        bind_Inr [where m = "wiki_get_html W (JStr ti)" and t = t1]
        extract_sections_from_wiki_html_def io_defs)

text \<open>The ways \<open>find_relevant_wiki_info\<close> ends, and the calls it makes.\<close>

lemma find_relevant_wiki_info_cases:
  "\<exists>res new.
     find_relevant_wiki_info W q t =
       (res, t @ HttpGet WIKIPEDIA_SEARCH_API (wiki_search_params (q @ '' exam'')) # new)
     \<and> (\<forall>c \<in> set new. is_wiki_call c)
     \<and> (res = Inr empty_wiki_info
        \<or> (\<exists>ti. res = Inr (empty_wiki_info\<lparr>w_title := Some ti\<rparr>))
        \<or> (\<exists>ti doc. res = Inr (classify_sections (empty_wiki_info\<lparr>w_title := Some ti\<rparr>)
                                   (sections_of_soup doc)))
        \<or> (\<exists>e. res = Inl e))"
proof -
  let ?c1 = "HttpGet WIKIPEDIA_SEARCH_API (wiki_search_params (q @ '' exam''))"
  obtain title new1 where
    rt: "resolve_title W q t = (Inr title, t @ ?c1 # new1)" and new1: "\<forall>c \<in> set new1. is_wiki_call c"
    using resolve_title_trace by blast
  consider (null) "title = JNull" | (str) ti where "title = JStr ti"
    | (bad) "title \<noteq> JNull" "title_str title = None"
    by (cases title) auto
  then show ?thesis
  proof cases
    case null
    then show ?thesis using find_relevant_wiki_info_no_title rt new1 by blast
  next
    case bad
    then have "find_relevant_wiki_info W q t = (Inl AttributeError, t @ ?c1 # new1)"
      using find_relevant_wiki_info_bad_title rt by blast
    then show ?thesis using new1 by blast
  next
    case (str ti)
    let ?c3 = "HttpGet (WIKIPEDIA_REST_PAGE (replace_char CHR '' '' CHR ''_'' ti)) []"
    obtain h where h: "wiki_get_html W (JStr ti) (t @ ?c1 # new1) = (Inr h, (t @ ?c1 # new1) @ [?c3])"
      using wiki_get_html_trace by blast
    have new3: "\<forall>c \<in> set (new1 @ [?c3]). is_wiki_call c"
      using new1 by (simp add: is_wiki_call_page)
    have t3: "(t @ ?c1 # new1) @ [?c3] = t @ ?c1 # (new1 @ [?c3])" by simp
    show ?thesis
    proof (cases h)
      case None
      then have "find_relevant_wiki_info W q t =
          (Inr (empty_wiki_info\<lparr>w_title := Some ti\<rparr>), t @ ?c1 # (new1 @ [?c3]))"
        using find_relevant_wiki_info_no_html rt h str t3 by metis
      then show ?thesis using new3 by blast
    next
      case (Some html)
      show ?thesis
      proof (cases "html_parser W html")
        case (Inl e)
        then have "find_relevant_wiki_info W q t = (Inl e, t @ ?c1 # (new1 @ [?c3]))"
          using find_relevant_wiki_info_rejected rt h str Some t3 by metis
        then show ?thesis using new3 by blast
      next
        case (Inr doc)
        then have "find_relevant_wiki_info W q t =
            (Inr (classify_sections (empty_wiki_info\<lparr>w_title := Some ti\<rparr>) (sections_of_soup doc)),
             t @ ?c1 # (new1 @ [?c3]))"
          using find_relevant_wiki_info_html rt h str Some t3 by metis
        then show ?thesis using new3 by blast
      qed
    qed
  qed
qed

section \<open>Section classification\<close>

lemma sections_of_soup_values:
  "(k, v) \<in> set (sections_of_soup doc) \<Longrightarrow> k \<noteq> ''summary'' \<Longrightarrow> v \<noteq> []"
  using heading_sections_values
  by (auto simp add: sections_of_soup_def Let_def set_setdefault split: if_splits)

lemma sections_of_soup_vals:
  "\<forall>kv \<in> set (sections_of_soup doc). snd kv = [] \<longrightarrow> fst kv = ''summary''"
  using sections_of_soup_values by fastforce

lemma first_present_mem:
  "first_present ks secs = Some v \<Longrightarrow> \<exists>k \<in> set ks. (k, v) \<in> set secs"
  by (induction ks) (auto simp add: dict_get_def split: option.splits dest: map_of_SomeD)

text \<open>The two loops of the classifier, in terms of \<open>find\<close> and \<open>map_of\<close>.\<close>

lemma first_present_find:
  "first_present ks secs =
     (case find (\<lambda>k. k \<in> fst ` set secs) ks of Some k \<Rightarrow> map_of secs k | None \<Rightarrow> None)"
proof (induction ks)
  case Nil
  show ?case by simp
next
  case (Cons k ks)
  show ?case
  proof (cases "map_of secs k")
    case None
    then have "k \<notin> fst ` set secs" by (simp add: map_of_eq_None_iff)
    with None Cons show ?thesis by (simp add: dict_get_def)
  next
    case (Some v)
    then have "k \<in> fst ` set secs" by (metis map_of_eq_None_iff option.distinct(1))
    with Some show ?thesis by (simp add: dict_get_def)
  qed
qed

lemma str_in_iff: "str_in sub s \<longleftrightarrow> (\<exists>a b. s = a @ sub @ b)"
proof (induction s)
  case Nil
  show ?case by auto
next
  case (Cons c cs)
  show ?case
  proof
    assume "str_in sub (c # cs)"
    then consider "startswith (c # cs) sub" | "str_in sub cs" by auto
    then show "\<exists>a b. c # cs = a @ sub @ b"
    proof cases
      case 1
      then obtain r where "c # cs = sub @ r" using startswith_iff by blast
      then have "c # cs = [] @ sub @ r" by simp
      then show ?thesis by blast
    next
      case 2
      then obtain a b where "cs = a @ sub @ b" using Cons.IH by blast
      then have "c # cs = (c # a) @ sub @ b" by simp
      then show ?thesis by blast
    qed
  next
    assume "\<exists>a b. c # cs = a @ sub @ b"
    then obtain a b where ab: "c # cs = a @ sub @ b" by blast
    show "str_in sub (c # cs)"
    proof (cases a)
      case Nil
      with ab have "startswith (c # cs) sub" using startswith_iff by auto
      then show ?thesis by simp
    next
      case (Cons x a')
      with ab have "cs = a' @ sub @ b" by simp
      then have "str_in sub cs" using Cons.IH by blast
      then show ?thesis by simp
    qed
  qed
qed

lemma first_containing_find:
  "first_containing ws secs =
     map_option snd (find (\<lambda>kv. \<exists>w \<in> set ws. \<exists>a b. fst kv = a @ w @ b) secs)"
  by (induction ws secs rule: first_containing.induct)
     (simp_all add: list_ex_iff str_in_iff)

lemma classify_sections_two_tier:
  assumes vals: "\<forall>kv \<in> set secs. snd kv = [] \<longrightarrow> fst kv = ''summary''"
      and init: "w_syllabus out0 = None" "w_pattern out0 = None"
  shows "w_pattern (classify_sections out0 secs) =
           (case first_present pattern_keys secs of
              Some v \<Rightarrow> Some v | None \<Rightarrow> first_containing pattern_words secs)"
    and "w_syllabus (classify_sections out0 secs) =
           (case first_present syllabus_keys secs of
              Some v \<Rightarrow> Some v | None \<Rightarrow> first_containing syllabus_words secs)"
    and "other_sections (classify_sections out0 secs) = secs"
    and "w_title (classify_sections out0 secs) = w_title out0"
proof -
  have p: "first_present pattern_keys secs = Some v \<Longrightarrow> v \<noteq> []" for v
    using first_present_mem [of pattern_keys secs v] vals
    by (auto simp add: pattern_keys_def)
  have s: "first_present syllabus_keys secs = Some v \<Longrightarrow> v \<noteq> []" for v
    using first_present_mem [of syllabus_keys secs v] vals
    by (auto simp add: syllabus_keys_def)
  show "w_pattern (classify_sections out0 secs) =
           (case first_present pattern_keys secs of
              Some v \<Rightarrow> Some v | None \<Rightarrow> first_containing pattern_words secs)"
    using p s init
    by (auto simp add: classify_sections_def Let_def truthy_def split: option.splits)
  show "w_syllabus (classify_sections out0 secs) =
           (case first_present syllabus_keys secs of
              Some v \<Rightarrow> Some v | None \<Rightarrow> first_containing syllabus_words secs)"
    using p s init
    by (auto simp add: classify_sections_def Let_def truthy_def split: option.splits)
  show "other_sections (classify_sections out0 secs) = secs"
    by (simp add: classify_sections_def Let_def split: option.splits)
  show "w_title (classify_sections out0 secs) = w_title out0"
    by (simp add: classify_sections_def Let_def split: option.splits)
qed

lemma two_tier_find:
  "(case first_present ks secs of Some v \<Rightarrow> Some v | None \<Rightarrow> first_containing ws secs) =
     (case find (\<lambda>k. k \<in> fst ` set secs) ks of
        Some k \<Rightarrow> map_of secs k
      | None \<Rightarrow> map_option snd (find (\<lambda>kv. \<exists>w \<in> set ws. \<exists>a b. fst kv = a @ w @ b) secs))"
proof (cases "find (\<lambda>k. k \<in> fst ` set secs) ks")
  case None
  then show ?thesis by (simp add: first_present_find first_containing_find)
next
  case (Some k)
  then have "k \<in> fst ` set secs" by (metis (mono_tags, lifting) find_Some_iff)
  then obtain v where "map_of secs k = Some v"
    by (metis map_of_eq_None_iff not_Some_eq)
  with Some show ?thesis by (simp add: first_present_find)
qed

text \<open>
  Claim C2. When a page is found, fetched and parsed, the pattern field of the record is the
  content stored under the first of the labels "exam pattern", "pattern", "format",
  "structure", "scheme" that is a key of the section mapping; only when none of them is a
  key, it is the content of the first section, in the order of the mapping, whose name
  contains one of "pattern", "structure", "format", "scheme", "paper"; and it is absent when
  there is no such section. So a mapping with the key "exam pattern" gives the content stored
  under that key, whatever other headings contain "format". The syllabus field follows the
  same two tiers with its own labels and substrings.
\<close>

theorem section_classifier_two_tier:
  "resolve_title W q t = (Inr (JStr ti), t1)
   \<and> wiki_get_html W (JStr ti) t1 = (Inr (Some html), t2)
   \<and> html_parser W html = Inr doc
   \<longrightarrow> (\<exists>info.
          find_relevant_wiki_info W q t = (Inr info, t2)
          \<and> other_sections info = sections_of_soup doc
          \<and> w_pattern info =
              (case find (\<lambda>k. k \<in> fst ` set (sections_of_soup doc))
                      [''exam pattern'', ''pattern'', ''format'', ''structure'', ''scheme''] of
                 Some k \<Rightarrow> map_of (sections_of_soup doc) k
               | None \<Rightarrow>
                   map_option snd
                     (find (\<lambda>kv. \<exists>w \<in> set [''pattern'', ''structure'', ''format'', ''scheme'', ''paper''].
                                 \<exists>a b. fst kv = a @ w @ b)
                        (sections_of_soup doc)))
          \<and> w_syllabus info =
              (case find (\<lambda>k. k \<in> fst ` set (sections_of_soup doc))
                      [''syllabus'', ''curriculum'', ''exam syllabus'',
                       ''syllabus and exam pattern'', ''syllabus and structure''] of
                 Some k \<Rightarrow> map_of (sections_of_soup doc) k
               | None \<Rightarrow>
                   map_option snd
                     (find (\<lambda>kv. \<exists>w \<in> set [''syllabus'', ''curriculum'', ''subjects'', ''paper'', ''exam''].
                                 \<exists>a b. fst kv = a @ w @ b)
                        (sections_of_soup doc)))
          \<and> (''exam pattern'' \<in> fst ` set (sections_of_soup doc)
               \<longrightarrow> w_pattern info = map_of (sections_of_soup doc) ''exam pattern''))"
proof (intro impI, elim conjE)
  let ?secs = "sections_of_soup doc"
  let ?info = "classify_sections (empty_wiki_info\<lparr>w_title := Some ti\<rparr>) ?secs"
  assume rt: "resolve_title W q t = (Inr (JStr ti), t1)"
     and gh: "wiki_get_html W (JStr ti) t1 = (Inr (Some html), t2)"
     and ps: "html_parser W html = Inr doc"
  have run: "find_relevant_wiki_info W q t = (Inr ?info, t2)"
    using find_relevant_wiki_info_html [OF rt gh ps] .
  have init: "w_syllabus (empty_wiki_info\<lparr>w_title := Some ti\<rparr>) = None"
             "w_pattern (empty_wiki_info\<lparr>w_title := Some ti\<rparr>) = None"
    by (simp_all add: empty_wiki_info_def)
  note c = classify_sections_two_tier [OF sections_of_soup_vals init, where doc1 = doc]
  have pat: "w_pattern ?info =
              (case find (\<lambda>k. k \<in> fst ` set ?secs)
                      [''exam pattern'', ''pattern'', ''format'', ''structure'', ''scheme''] of
                 Some k \<Rightarrow> map_of ?secs k
               | None \<Rightarrow>
                   map_option snd
                     (find (\<lambda>kv. \<exists>w \<in> set [''pattern'', ''structure'', ''format'', ''scheme'', ''paper''].
                                 \<exists>a b. fst kv = a @ w @ b) ?secs))"
    unfolding c(1) two_tier_find pattern_keys_def pattern_words_def by (rule refl)
  have syl: "w_syllabus ?info =
              (case find (\<lambda>k. k \<in> fst ` set ?secs)
                      [''syllabus'', ''curriculum'', ''exam syllabus'',
                       ''syllabus and exam pattern'', ''syllabus and structure''] of
                 Some k \<Rightarrow> map_of ?secs k
               | None \<Rightarrow>
                   map_option snd
                     (find (\<lambda>kv. \<exists>w \<in> set [''syllabus'', ''curriculum'', ''subjects'', ''paper'', ''exam''].
                                 \<exists>a b. fst kv = a @ w @ b) ?secs))"
    unfolding c(2) two_tier_find syllabus_keys_def syllabus_words_def by (rule refl)
  have ep: "''exam pattern'' \<in> fst ` set ?secs \<longrightarrow> w_pattern ?info = map_of ?secs ''exam pattern''"
    unfolding pat by simp
  show "\<exists>info.
          find_relevant_wiki_info W q t = (Inr info, t2)
          \<and> other_sections info = ?secs
          \<and> w_pattern info =
              (case find (\<lambda>k. k \<in> fst ` set ?secs)
                      [''exam pattern'', ''pattern'', ''format'', ''structure'', ''scheme''] of
                 Some k \<Rightarrow> map_of ?secs k
               | None \<Rightarrow>
                   map_option snd
                     (find (\<lambda>kv. \<exists>w \<in> set [''pattern'', ''structure'', ''format'', ''scheme'', ''paper''].
                                 \<exists>a b. fst kv = a @ w @ b) ?secs))
          \<and> w_syllabus info =
              (case find (\<lambda>k. k \<in> fst ` set ?secs)
                      [''syllabus'', ''curriculum'', ''exam syllabus'',
                       ''syllabus and exam pattern'', ''syllabus and structure''] of
                 Some k \<Rightarrow> map_of ?secs k
               | None \<Rightarrow>
                   map_option snd
                     (find (\<lambda>kv. \<exists>w \<in> set [''syllabus'', ''curriculum'', ''subjects'', ''paper'', ''exam''].
                                 \<exists>a b. fst kv = a @ w @ b) ?secs))
          \<and> (''exam pattern'' \<in> fst ` set ?secs
               \<longrightarrow> w_pattern info = map_of ?secs ''exam pattern'')"
    using run c(3) pat syl ep by (intro exI [of _ ?info]) blast
qed

lemma wiki_world_resolve:
  "resolve_title (wiki_world doc) ''jee'' [] =
     (Inr (JStr ''Some Exam''), [HttpGet WIKIPEDIA_SEARCH_API (wiki_search_params ''jee exam'')])"
  by code_simp

lemma wiki_world_html:
  "wiki_get_html (wiki_world doc) (JStr ''Some Exam'')
       [HttpGet WIKIPEDIA_SEARCH_API (wiki_search_params ''jee exam'')] =
     (Inr (Some ''<html>''), [HttpGet WIKIPEDIA_SEARCH_API (wiki_search_params ''jee exam''),
                              HttpGet (WIKIPEDIA_REST_PAGE ''Some_Exam'') []])"
  by code_simp

lemma wiki_world_parser: "html_parser (wiki_world doc) html = Inr doc"
  by (simp add: wiki_world_def)

lemma wiki_page_sections:
  "sections_of_soup wiki_page =
     [(''test format'', ''Three papers.''), (''exam pattern'', ''MCQ''), (''summary'', ''Leadtext'')]"
  by code_simp

lemma order_page_sections:
  "sections_of_soup order_page =
     [(''format'', ''Pen and paper.''), (''pattern'', ''Two sections.''),
      (''curriculum'', ''Physics.''), (''syllabus'', ''Chemistry.''), (''summary'', ''Pen and paper.'')]"
  by code_simp

lemma fallback_page_sections:
  "sections_of_soup fallback_page =
     [(''history'', ''Since 1990.''), (''question paper'', ''One paper.''),
      (''exam structure'', ''Three hours.''), (''summary'', ''Since 1990.'')]"
  by code_simp

theorem section_classifier_two_tier_witness:
  "(\<exists>info t2. find_relevant_wiki_info (wiki_world wiki_page) ''jee'' [] = (Inr info, t2)
       \<and> map fst (other_sections info) = [''test format'', ''exam pattern'', ''summary'']
       \<and> str_in ''format'' ''test format''
       \<and> w_pattern info = Some ''MCQ'')
   \<and> (\<exists>info t2. find_relevant_wiki_info (wiki_world order_page) ''jee'' [] = (Inr info, t2)
       \<and> map fst (other_sections info) =
           [''format'', ''pattern'', ''curriculum'', ''syllabus'', ''summary'']
       \<and> w_pattern info = Some ''Two sections.''
       \<and> w_syllabus info = Some ''Chemistry.'')
   \<and> (\<exists>info t2. find_relevant_wiki_info (wiki_world fallback_page) ''jee'' [] = (Inr info, t2)
       \<and> map fst (other_sections info) =
           [''history'', ''question paper'', ''exam structure'', ''summary'']
       \<and> w_pattern info = Some ''One paper.''
       \<and> w_syllabus info = Some ''One paper.'')"
proof -
  let ?t1 = "[HttpGet WIKIPEDIA_SEARCH_API (wiki_search_params ''jee exam'')]"
  let ?t2 = "[HttpGet WIKIPEDIA_SEARCH_API (wiki_search_params ''jee exam''),
              HttpGet (WIKIPEDIA_REST_PAGE ''Some_Exam'') []]"
  have f: "str_in ''format'' ''test format''" by code_simp
  have a: "\<exists>info t2. find_relevant_wiki_info (wiki_world wiki_page) ''jee'' [] = (Inr info, t2)
       \<and> map fst (other_sections info) = [''test format'', ''exam pattern'', ''summary'']
       \<and> str_in ''format'' ''test format''
       \<and> w_pattern info = Some ''MCQ''"
    using f wiki_world_resolve [of wiki_page] wiki_world_html [of wiki_page]
      wiki_world_parser [of wiki_page "''<html>''"]
      section_classifier_two_tier [of "wiki_world wiki_page" "''jee''" "[]" "''Some Exam''" ?t1
        "''<html>''" ?t2 wiki_page]
    unfolding wiki_page_sections by auto
  have b: "\<exists>info t2. find_relevant_wiki_info (wiki_world order_page) ''jee'' [] = (Inr info, t2)
       \<and> map fst (other_sections info) =
           [''format'', ''pattern'', ''curriculum'', ''syllabus'', ''summary'']
       \<and> w_pattern info = Some ''Two sections.''
       \<and> w_syllabus info = Some ''Chemistry.''"
    using wiki_world_resolve [of order_page] wiki_world_html [of order_page]
      wiki_world_parser [of order_page "''<html>''"]
      section_classifier_two_tier [of "wiki_world order_page" "''jee''" "[]" "''Some Exam''" ?t1
        "''<html>''" ?t2 order_page]
    unfolding order_page_sections by auto
  have c: "\<exists>info t2. find_relevant_wiki_info (wiki_world fallback_page) ''jee'' [] = (Inr info, t2)
       \<and> map fst (other_sections info) =
           [''history'', ''question paper'', ''exam structure'', ''summary'']
       \<and> w_pattern info = Some ''One paper.''
       \<and> w_syllabus info = Some ''One paper.''"
    using wiki_world_resolve [of fallback_page] wiki_world_html [of fallback_page]
      wiki_world_parser [of fallback_page "''<html>''"]
      section_classifier_two_tier [of "wiki_world fallback_page" "''jee''" "[]" "''Some Exam''" ?t1
        "''<html>''" ?t2 fallback_page]
    unfolding fallback_page_sections str_in_iff [symmetric]
    by (auto simp add: startswith_def)
  show ?thesis using a b c by blast
qed

section \<open>Summary fallback\<close>

lemma heading_sections_keys_names:
  "fst ` set (heading_sections s) \<subseteq> set (heading_names s)"
  unfolding heading_sections_keys heading_names_def by auto

lemma map_of_heading_sections_None:
  "k \<notin> set (heading_names s) \<Longrightarrow> map_of (heading_sections s) k = None"
  using heading_sections_keys_names [of s] by (auto simp add: map_of_eq_None_iff)

lemma classify_sections_summary:
  "w_summary (classify_sections out0 secs) =
     py_or (py_or (dict_get secs ''summary'') (dict_get secs ''introduction'')) None"
  by (simp add: classify_sections_def Let_def split: option.splits)

text \<open>
  Claim C5 (as amended). When a page is found, fetched and parsed and none of its headings is
  named "summary" or "introduction", \<open>extract_sections_from_wiki_html\<close> stores the text of the
  first paragraph (after table removal) under "summary", and the summary field of the record
  is that text when it is not empty, and \<open>None\<close> when it is empty or there is no paragraph.
\<close>

theorem summary_fallback:
  "resolve_title W q t = (Inr (JStr ti), t1)
   \<and> wiki_get_html W (JStr ti) t1 = (Inr (Some html), t2)
   \<and> html_parser W html = Inr doc
   \<and> ''summary'' \<notin> set (heading_names (remove_tables doc))
   \<and> ''introduction'' \<notin> set (heading_names (remove_tables doc))
   \<longrightarrow> (\<exists>info.
          find_relevant_wiki_info W q t = (Inr info, t2)
          \<and> dict_get (other_sections info) ''summary'' = Some (lead_para (remove_tables doc))
          \<and> w_summary info =
              (if lead_para (remove_tables doc) = [] then None
               else Some (lead_para (remove_tables doc))))"
proof (intro impI, elim conjE)
  let ?s = "remove_tables doc"
  let ?secs = "sections_of_soup doc"
  assume rt: "resolve_title W q t = (Inr (JStr ti), t1)"
     and gh: "wiki_get_html W (JStr ti) t1 = (Inr (Some html), t2)"
     and ps: "html_parser W html = Inr doc"
     and ns: "''summary'' \<notin> set (heading_names ?s)"
     and ni: "''introduction'' \<notin> set (heading_names ?s)"
  have secs: "?secs = heading_sections ?s @ [(''summary'', lead_para ?s)]"
    using map_of_heading_sections_None [OF ns]
    by (simp add: sections_of_soup_def Let_def setdefault_def)
  have gs: "dict_get ?secs ''summary'' = Some (lead_para ?s)"
    unfolding secs dict_get_def using map_of_heading_sections_None [OF ns]
    by (simp add: map_add_def)
  have gi: "dict_get ?secs ''introduction'' = None"
    unfolding secs dict_get_def using map_of_heading_sections_None [OF ni]
    by (simp add: map_add_def)
  let ?info = "classify_sections (empty_wiki_info\<lparr>w_title := Some ti\<rparr>) ?secs"
  have run: "find_relevant_wiki_info W q t = (Inr ?info, t2)"
    using find_relevant_wiki_info_html [OF rt gh ps] .
  have os: "other_sections ?info = ?secs"
    by (simp add: classify_sections_def Let_def split: option.splits)
  have su: "w_summary ?info = (if lead_para ?s = [] then None else Some (lead_para ?s))"
    unfolding classify_sections_summary gs gi by (simp add: py_or_def truthy_def)
  show "\<exists>info.
          find_relevant_wiki_info W q t = (Inr info, t2)
          \<and> dict_get (other_sections info) ''summary'' = Some (lead_para ?s)
          \<and> w_summary info = (if lead_para ?s = [] then None else Some (lead_para ?s))"
    using run os gs su by (intro exI [of _ ?info]) simp
qed

theorem summary_fallback_witness:
  "resolve_title (wiki_world wiki_page) ''jee'' [] =
     (Inr (JStr ''Some Exam''), [HttpGet WIKIPEDIA_SEARCH_API (wiki_search_params ''jee exam'')])
   \<and> html_parser (wiki_world wiki_page) ''<html>'' = Inr wiki_page
   \<and> ''summary'' \<notin> set (heading_names (remove_tables wiki_page))
   \<and> ''introduction'' \<notin> set (heading_names (remove_tables wiki_page))
   \<and> lead_para (remove_tables wiki_page) = ''Leadtext''
   \<and> (\<exists>info t2. find_relevant_wiki_info (wiki_world wiki_page) ''jee'' [] = (Inr info, t2)
         \<and> w_summary info = Some ''Leadtext'')"
proof -
  have n: "heading_names (remove_tables wiki_page) = [''test format'', ''empty heading'', ''exam pattern'']"
    by code_simp
  have l: "lead_para (remove_tables wiki_page) = ''Leadtext''"
    by code_simp
  show ?thesis
    using n l wiki_world_parser [of wiki_page "''<html>''"]
      wiki_world_resolve [of wiki_page] wiki_world_html [of wiki_page]
      summary_fallback [of "wiki_world wiki_page" "''jee''" "[]" "''Some Exam''"
        "[HttpGet WIKIPEDIA_SEARCH_API (wiki_search_params ''jee exam'')]" "''<html>''"
        "[HttpGet WIKIPEDIA_SEARCH_API (wiki_search_params ''jee exam''),
          HttpGet (WIKIPEDIA_REST_PAGE ''Some_Exam'') []]" wiki_page]
    by auto
qed

text \<open>
  A page whose first paragraph holds only a space: no heading is named "summary" or
  "introduction", the first paragraph exists, and the summary field is \<open>None\<close>, not the
  (empty) text of that paragraph.
\<close>

theorem summary_fallback_counterexample:
  "''summary'' \<notin> set (heading_names (remove_tables blank_page))
   \<and> ''introduction'' \<notin> set (heading_names (remove_tables blank_page))
   \<and> find (is_named ''p'') (descendants (remove_tables blank_page))
       = Some (Tag ''p'' [] [NavigableString '' ''])
   \<and> lead_para (remove_tables blank_page) = []
   \<and> fst (find_relevant_wiki_info (wiki_world blank_page) ''jee'' []) =
       Inr \<lparr>w_title = Some ''Some Exam'', w_summary = None, w_syllabus = None,
            w_pattern = None, other_sections = [(''summary'', [])]\<rparr>
   \<and> map_sum id w_summary (fst (find_relevant_wiki_info (wiki_world blank_page) ''jee'' []))
       \<noteq> Inr (Some (lead_para (remove_tables blank_page)))"
  by code_simp

section \<open>The lookups of the aggregator\<close>

lemma video_of_item_pure: "\<exists>r. video_of_item item t = (r, t)"
  by (auto simp add: video_of_item_def io_defs subscript_def split: option.splits)

lemma map_io_video_pure: "\<exists>r. map_io video_of_item xs t = (r, t)"
proof (induction xs)
  case Nil
  show ?case by (simp add: return_def)
next
  case (Cons x xs)
  obtain r1 where r1: "video_of_item x t = (r1, t)" using video_of_item_pure by blast
  obtain r2 where r2: "map_io video_of_item xs t = (r2, t)" using Cons.IH by blast
  show ?case using r1 r2 by (cases r1; cases r2) (simp_all add: io_defs)
qed

lemma search_youtube_videos_trace:
  "\<exists>vs n. search_youtube_videos W q m t = (Inr vs, t @ n)
     \<and> (\<forall>c \<in> set n. is_youtube_call c)
     \<and> (\<not> HAVE_YT W \<or> \<not> truthy (YOUTUBE_API_KEY W) \<or> (\<forall>u p. isl (youtube_execute W u p))
          \<longrightarrow> vs = [])"
proof (cases "\<not> HAVE_YT W \<or> \<not> truthy (YOUTUBE_API_KEY W)")
  case True
  then have "search_youtube_videos W q m t = (Inr [], t @ [])"
    by (auto simp add: search_youtube_videos_def return_def)
  then show ?thesis by fastforce
next
  case False
  let ?p = "youtube_params (q @ '' preparation'') m ''video''"
  let ?t1 = "t @ [YouTubeSearchList ?p]"
  have k: "is_youtube_call (YouTubeSearchList ?p)" by (simp add: is_youtube_call_def)
  show ?thesis
  proof (cases "youtube_execute W t ?p")
    case (Inl e)
    with False have "search_youtube_videos W q m t = (Inr [], ?t1)"
      by (simp add: search_youtube_videos_def io_defs youtube_search_list_def)
    then show ?thesis using k by fastforce
  next
    case (Inr resp)
    obtain r where r: "map_io video_of_item (get_default (j_items resp) []) ?t1 = (r, ?t1)"
      using map_io_video_pure by blast
    have ni: "\<not> (\<forall>u p. isl (youtube_execute W u p))"
      using Inr by (metis sum.disc(2))
    from False Inr r have "\<exists>vs. search_youtube_videos W q m t = (Inr vs, ?t1)"
      by (cases r) (simp_all add: search_youtube_videos_def io_defs youtube_search_list_def)
    then show ?thesis using k False ni by fastforce
  qed
qed

lemma search_youtube_playlist_trace:
  "\<exists>pl n. search_youtube_playlist W q t = (Inr pl, t @ n)
     \<and> (\<forall>c \<in> set n. is_youtube_call c)
     \<and> (\<not> HAVE_YT W \<or> \<not> truthy (YOUTUBE_API_KEY W) \<or> (\<forall>u p. isl (youtube_execute W u p))
          \<longrightarrow> pl = None)"
proof (cases "\<not> HAVE_YT W \<or> \<not> truthy (YOUTUBE_API_KEY W)")
  case True
  then have "search_youtube_playlist W q t = (Inr None, t @ [])"
    by (auto simp add: search_youtube_playlist_def return_def)
  then show ?thesis by fastforce
next
  case False
  let ?p = "youtube_params (q @ '' preparation playlist'') 1 ''playlist''"
  let ?t1 = "t @ [YouTubeSearchList ?p]"
  have k: "is_youtube_call (YouTubeSearchList ?p)" by (simp add: is_youtube_call_def)
  show ?thesis
  proof (cases "youtube_execute W t ?p")
    case (Inl e)
    with False have "search_youtube_playlist W q t = (Inr None, ?t1)"
      by (simp add: search_youtube_playlist_def io_defs youtube_search_list_def)
    then show ?thesis using k by fastforce
  next
    case (Inr resp)
    have ni: "\<not> (\<forall>u p. isl (youtube_execute W u p))"
      using Inr by (metis sum.disc(2))
    from False Inr have "\<exists>pl. search_youtube_playlist W q t = (Inr pl, ?t1)"
      by (auto simp add: search_youtube_playlist_def io_defs youtube_search_list_def
            subscript_def get_default_def split: list.splits option.splits)
    then show ?thesis using k False ni by fastforce
  qed
qed

lemma search_google_books_trace:
  "\<exists>bs. search_google_books W q m t = (Inr bs, t @ [HttpGet GOOGLE_BOOKS_BASE (books_params q m)])
     \<and> (http_failed (http_get W t GOOGLE_BOOKS_BASE (books_params q m)) \<longrightarrow> bs = [])"
  by (auto simp add: search_google_books_def io_defs requests_get_def raise_for_status_def
        http_failed_def Let_def split: sum.splits)

lemma wiki_search_title_failed:
  "http_failed (http_get W t WIKIPEDIA_SEARCH_API (wiki_search_params q)) \<Longrightarrow>
   wiki_search_title W q t = (Inr JNull, t @ [HttpGet WIKIPEDIA_SEARCH_API (wiki_search_params q)])"
  by (auto simp add: wiki_search_title_def io_defs requests_get_def raise_for_status_def
        http_failed_def split: sum.splits)

lemma wiki_get_html_failed:
  "page_failed (http_get W t (WIKIPEDIA_REST_PAGE (replace_char CHR '' '' CHR ''_'' ti)) []) \<Longrightarrow>
   wiki_get_html W (JStr ti) t =
     (Inr None, t @ [HttpGet (WIKIPEDIA_REST_PAGE (replace_char CHR '' '' CHR ''_'' ti)) []])"
  by (auto simp add: wiki_get_html_def io_defs requests_get_def page_failed_def Let_def
        split: sum.splits)

lemma wiki_get_html_served:
  "wiki_get_html W (JStr ti) t = (Inr (Some h), t') \<Longrightarrow>
   \<exists>r. http_get W t (WIKIPEDIA_REST_PAGE (replace_char CHR '' '' CHR ''_'' ti)) [] = Inr r
       \<and> status_code r = 200 \<and> body_text r = h"
  by (auto simp add: wiki_get_html_def io_defs requests_get_def Let_def
        split: sum.splits if_splits)

lemma scrape_order_failed:
  "\<forall>u. \<forall>s \<in> set items. http_failed (http_get W u (src_link s) []) \<Longrightarrow>
   scrape_order W items t = []"
  by (induction items arbitrary: t)
     (auto simp add: page_entries_def http_failed_def split: sum.splits)

lemma resolve_title_search_failed:
  assumes "\<forall>u p. http_failed (http_get W u WIKIPEDIA_SEARCH_API p)"
  shows "\<exists>t'. resolve_title W q t = (Inr JNull, t')"
proof -
  let ?c1 = "HttpGet WIKIPEDIA_SEARCH_API (wiki_search_params (q @ '' exam''))"
  have a: "wiki_search_title W (q @ '' exam'') t = (Inr JNull, t @ [?c1])"
    using assms by (simp add: wiki_search_title_failed)
  have b: "wiki_search_title W q (t @ [?c1]) =
      (Inr JNull, (t @ [?c1]) @ [HttpGet WIKIPEDIA_SEARCH_API (wiki_search_params q)])"
    using assms by (simp add: wiki_search_title_failed)
  have "resolve_title W q t =
      (Inr JNull, (t @ [?c1]) @ [HttpGet WIKIPEDIA_SEARCH_API (wiki_search_params q)])"
    using a b by (simp add: resolve_title_def io_defs)
  then show ?thesis by blast
qed

lemma find_relevant_wiki_info_search_failed:
  assumes "\<forall>u p. http_failed (http_get W u WIKIPEDIA_SEARCH_API p)"
  shows "\<exists>t'. find_relevant_wiki_info W q t = (Inr empty_wiki_info, t')"
  using resolve_title_search_failed [OF assms] find_relevant_wiki_info_no_title by blast

text \<open>The title that line 87 resolves is one that a search returned.\<close>

lemma resolve_title_from_search:
  "resolve_title W q t = (Inr v, t1) \<Longrightarrow>
   \<exists>q' u u'. wiki_search_title W q' u = (Inr v, u')"
proof -
  assume rt: "resolve_title W q t = (Inr v, t1)"
  let ?c1 = "HttpGet WIKIPEDIA_SEARCH_API (wiki_search_params (q @ '' exam''))"
  obtain r1 where r1: "wiki_search_title W (q @ '' exam'') t = (Inr r1, t @ [?c1])"
    using wiki_search_title_trace by blast
  show ?thesis
  proof (cases "json_truthy r1")
    case True
    then have "resolve_title W q t = (Inr r1, t @ [?c1])"
      using r1 by (simp add: resolve_title_def io_defs)
    then show ?thesis using rt r1 by auto
  next
    case False
    then have "resolve_title W q t = wiki_search_title W q (t @ [?c1])"
      using r1 by (simp add: resolve_title_def io_defs)
    then show ?thesis using rt by metis
  qed
qed

text \<open>
  When the titles found are strings (or none) and the parser accepts every page that is
  served, the encyclopedia lookup returns a record.
\<close>

lemma find_relevant_wiki_info_returns:
  assumes titles: "\<forall>q' u v u'. wiki_search_title W q' u = (Inr v, u') \<longrightarrow> title_ok v"
      and parses: "\<forall>u url r. http_get W u url [] = Inr r \<and> status_code r = 200
                     \<longrightarrow> \<not> isl (html_parser W (body_text r))"
  shows "\<exists>info t'. find_relevant_wiki_info W q t = (Inr info, t')
           \<and> ((\<forall>u url. page_failed (http_get W u url []))
                \<longrightarrow> w_summary info = None \<and> w_syllabus info = None \<and> w_pattern info = None
                    \<and> other_sections info = [])"
proof -
  obtain title t1 where rt: "resolve_title W q t = (Inr title, t1)"
    using resolve_title_trace by blast
  have ok: "title_ok title"
    using resolve_title_from_search [OF rt] titles by blast
  then consider (null) "title = JNull" | (str) ti where "title = JStr ti"
    by (cases title) (auto simp add: title_ok_def)
  then show ?thesis
  proof cases
    case null
    then have "find_relevant_wiki_info W q t = (Inr empty_wiki_info, t1)"
      using rt find_relevant_wiki_info_no_title by blast
    then show ?thesis by (simp add: empty_wiki_info_def)
  next
    case (str ti)
    let ?url = "WIKIPEDIA_REST_PAGE (replace_char CHR '' '' CHR ''_'' ti)"
    obtain h where h: "wiki_get_html W (JStr ti) t1 = (Inr h, t1 @ [HttpGet ?url []])"
      using wiki_get_html_trace by blast
    show ?thesis
    proof (cases h)
      case None
      then have "find_relevant_wiki_info W q t =
          (Inr (empty_wiki_info\<lparr>w_title := Some ti\<rparr>), t1 @ [HttpGet ?url []])"
        using rt str h find_relevant_wiki_info_no_html by blast
      then show ?thesis by (simp add: empty_wiki_info_def)
    next
      case (Some html)
      obtain r where r: "http_get W t1 ?url [] = Inr r" "status_code r = 200" "body_text r = html"
        using wiki_get_html_served h Some by blast
      have "\<not> page_failed (http_get W t1 ?url [])"
        using r by (simp add: page_failed_def)
      then have np: "\<not> (\<forall>u url. page_failed (http_get W u url []))"
        by blast
      have "\<not> isl (html_parser W html)" using parses r by blast
      then obtain doc where doc: "html_parser W html = Inr doc"
        by (cases "html_parser W html") auto
      have "find_relevant_wiki_info W q t =
          (Inr (classify_sections (empty_wiki_info\<lparr>w_title := Some ti\<rparr>) (sections_of_soup doc)),
           t1 @ [HttpGet ?url []])"
        using rt str h Some doc find_relevant_wiki_info_html by blast
      then show ?thesis using np by blast
    qed
  qed
qed

text \<open>The aggregate is assembled from the results of the five lookups, in order.\<close>

lemma fetch_exam_info_universal_run:
  assumes "find_relevant_wiki_info W q t = (Inr w, t1)"
      and "(if iv then search_youtube_videos W q 6 else return []) t1 = (Inr vs, t2)"
      and "(if iv then search_youtube_playlist W q else return None) t2 = (Inr pl, t3)"
      and "(if ib then search_google_books W q 6 else return []) t3 = (Inr bs, t4)"
      and "(if ib then fetch_free_pyqs_links W q else return []) t4 = (Inr ps, t5)"
  shows "fetch_exam_info_universal W q iv ib t =
           (Inr \<lparr>query = q, wikipedia = w, videos = vs, playlist_of = pl,
                 books = bs, free_pyqs = ps\<rparr>, t5)"
  unfolding fetch_exam_info_universal_def
  by (simp add:
        bind_Inr [where m = "find_relevant_wiki_info W q" and t = t, OF assms(1)]
        bind_Inr [where m = "if iv then search_youtube_videos W q 6 else return []" and t = t1,
                  OF assms(2)]
        bind_Inr [where m = "if iv then search_youtube_playlist W q else return None" and t = t2,
                  OF assms(3)]
        bind_Inr [where m = "if ib then search_google_books W q 6 else return []" and t = t3,
                  OF assms(4)]
        bind_Inr [where m = "if ib then fetch_free_pyqs_links W q else return []" and t = t4,
                  OF assms(5)]
        return_def)

lemma videos_part:
  "\<exists>vs n. (if iv then search_youtube_videos W q 6 else return []) t = (Inr vs, t @ n)
     \<and> (\<forall>c \<in> set n. is_youtube_call c)
     \<and> (\<not> iv \<longrightarrow> vs = [] \<and> n = [])
     \<and> (\<not> HAVE_YT W \<or> \<not> truthy (YOUTUBE_API_KEY W) \<or> (\<forall>u p. isl (youtube_execute W u p))
          \<longrightarrow> vs = [])"
proof (cases iv)
  case True
  then show ?thesis using search_youtube_videos_trace [of W q 6 t] by simp
next
  case False
  then have "(if iv then search_youtube_videos W q 6 else return []) t = (Inr [], t @ [])"
    by (simp add: return_def)
  then show ?thesis using False by fastforce
qed

lemma playlist_part:
  "\<exists>pl n. (if iv then search_youtube_playlist W q else return None) t = (Inr pl, t @ n)
     \<and> (\<forall>c \<in> set n. is_youtube_call c)
     \<and> (\<not> iv \<longrightarrow> pl = None \<and> n = [])
     \<and> (\<not> HAVE_YT W \<or> \<not> truthy (YOUTUBE_API_KEY W) \<or> (\<forall>u p. isl (youtube_execute W u p))
          \<longrightarrow> pl = None)"
proof (cases iv)
  case True
  then show ?thesis using search_youtube_playlist_trace [of W q t] by simp
next
  case False
  then have "(if iv then search_youtube_playlist W q else return None) t = (Inr None, t @ [])"
    by (simp add: return_def)
  then show ?thesis using False by fastforce
qed

lemma books_part:
  "\<exists>bs n. (if ib then search_google_books W q 6 else return []) t = (Inr bs, t @ n)
     \<and> (\<forall>c \<in> set n. is_books_call c)
     \<and> (\<not> ib \<longrightarrow> bs = [] \<and> n = [])
     \<and> ((\<forall>u p. http_failed (http_get W u GOOGLE_BOOKS_BASE p)) \<longrightarrow> bs = [])"
proof (cases ib)
  case True
  obtain bs where
    "search_google_books W q 6 t = (Inr bs, t @ [HttpGet GOOGLE_BOOKS_BASE (books_params q 6)])"
    "http_failed (http_get W t GOOGLE_BOOKS_BASE (books_params q 6)) \<longrightarrow> bs = []"
    using search_google_books_trace by blast
  moreover have "\<forall>c \<in> set [HttpGet GOOGLE_BOOKS_BASE (books_params q 6)]. is_books_call c"
    by (simp add: is_books_call_def)
  ultimately show ?thesis using True by (intro exI [of _ bs] exI [of _ "[HttpGet GOOGLE_BOOKS_BASE (books_params q 6)]"]) simp
next
  case False
  then have "(if ib then search_google_books W q 6 else return []) t = (Inr [], t @ [])"
    by (simp add: return_def)
  then show ?thesis using False by fastforce
qed

lemma registered_links_archive:
  "s \<in> set (registered_links q) \<Longrightarrow> is_archive_call (HttpGet (src_link s) p)"
  by (auto simp add: registered_links_cases is_archive_call_def split: if_splits)

lemma pyqs_part:
  "\<exists>ps n. (if ib then fetch_free_pyqs_links W q else return []) t = (Inr ps, t @ n)
     \<and> (\<forall>c \<in> set n. is_archive_call c)
     \<and> (\<not> ib \<longrightarrow> ps = [] \<and> n = [])
     \<and> ((\<forall>u. \<forall>s \<in> set (registered_links q). http_failed (http_get W u (src_link s) []))
          \<longrightarrow> ps = [])"
proof (cases ib)
  case True
  let ?n = "map (\<lambda>s. HttpGet (src_link s) []) (registered_links q)"
  have run: "fetch_free_pyqs_links W q t =
      (Inr (take 5 (scrape_order W (registered_links q) t)), t @ ?n)"
    by (simp add: fetch_free_pyqs_links_def scrape_loop_eq io_defs)
  have k: "\<forall>c \<in> set ?n. is_archive_call c"
    using registered_links_archive by auto
  have f: "(\<forall>u. \<forall>s \<in> set (registered_links q). http_failed (http_get W u (src_link s) []))
          \<longrightarrow> take 5 (scrape_order W (registered_links q) t) = []"
    using scrape_order_failed by simp
  show ?thesis using True run k f
    by (intro exI [of _ "take 5 (scrape_order W (registered_links q) t)"] exI [of _ ?n]) simp
next
  case False
  then have "(if ib then fetch_free_pyqs_links W q else return []) t = (Inr [], t @ [])"
    by (simp add: return_def)
  then show ?thesis using False by fastforce
qed

lemma kinds_wiki:
  "is_wiki_call c \<Longrightarrow> \<not> is_youtube_call c \<and> \<not> is_books_call c \<and> \<not> is_archive_call c"
  by (cases c)
     (auto simp add: is_wiki_call_def is_youtube_call_def is_books_call_def is_archive_call_def
        WIKIPEDIA_SEARCH_API_def WIKIPEDIA_REST_PAGE_def GOOGLE_BOOKS_BASE_def startswith_def
        neet_url_def jee_url_def neet_self_def jee_self_def examsnet_base_def selfstudys_base_def)

lemma kinds_youtube:
  "is_youtube_call c \<Longrightarrow> \<not> is_books_call c \<and> \<not> is_archive_call c"
  by (cases c) (auto simp add: is_youtube_call_def is_books_call_def is_archive_call_def)

lemma kinds_books: "is_books_call c \<Longrightarrow> \<not> is_youtube_call c"
  by (cases c) (auto simp add: is_youtube_call_def is_books_call_def)

lemma kinds_archive: "is_archive_call c \<Longrightarrow> \<not> is_youtube_call c"
  by (cases c) (auto simp add: is_youtube_call_def is_archive_call_def)

text \<open>When the encyclopedia lookup raises, the exception leaves the aggregator at once.\<close>

lemma fetch_exam_info_universal_raises:
  "find_relevant_wiki_info W q t = (Inl e, t1) \<Longrightarrow>
   fetch_exam_info_universal W q iv ib t = (Inl e, t1)"
  unfolding fetch_exam_info_universal_def
  by (simp add: bind_Inl [where m = "find_relevant_wiki_info W q" and t = t])

section \<open>Catch and degrade\<close>

text \<open>
  Claim C1. \<open>fetch_exam_info_universal\<close> is to return a record of six fields for every
  behaviour of the external sources, each failed lookup giving its empty value, and to let
  no exception escape. The code breaks this in the encyclopedia lookup, where two statements
  stand outside every \<open>try\<close>: line 61 parses the page, and line 50 calls \<open>replace\<close> on the
  title. When the page that is served is markup that the parser rejects, the exception of
  the parser leaves \<open>fetch_exam_info_universal\<close> after the two encyclopedia calls and no
  record is returned, although the paper-link scraper, which parses inside its \<open>try\<close>
  (line 242), answers the same rejection with the empty list. When the search answers
  the number 5 as the title, \<open>AttributeError\<close> leaves it after the search.
\<close>

theorem fetch_exam_info_universal_escapes:
  "http_get rejecting_world [HttpGet WIKIPEDIA_SEARCH_API (wiki_search_params ''jee exam'')]
       (WIKIPEDIA_REST_PAGE ''Some_Exam'') [] =
     Inr \<lparr>status_code = 200, body_text = ''<![foo['', body_json = Inl JSONDecodeError\<rparr>
   \<and> html_parser rejecting_world ''<![foo['' = Inl ParserRejectedMarkup
   \<and> fetch_exam_info_universal rejecting_world ''jee'' True True [] =
       (Inl ParserRejectedMarkup,
        [HttpGet WIKIPEDIA_SEARCH_API (wiki_search_params ''jee exam''),
         HttpGet (WIKIPEDIA_REST_PAGE ''Some_Exam'') []])
   \<and> fetch_free_pyqs_links rejecting_world ''jee'' [] =
       (Inr [], [HttpGet jee_url [], HttpGet jee_self []])
   \<and> fetch_exam_info_universal numeric_title_world ''jee'' True True [] =
       (Inl AttributeError, [HttpGet WIKIPEDIA_SEARCH_API (wiki_search_params ''jee exam'')])"
  by code_simp

text \<open>
  Everywhere else the policy holds. When every title found is a string (or none) and the
  parser accepts every page served with status 200, \<open>fetch_exam_info_universal\<close> returns a
  record, and each lookup that fails gives its empty value: when the encyclopedia search
  fails (transport error, timeout or error status), the all-\<open>None\<close> record; when pages cannot
  be fetched, no summary, syllabus, pattern or sections; when the video client is missing,
  has no key or fails, no videos and no playlist; when the books request fails, no books;
  when the archive pages fail, no links.
\<close>

lemma fetch_exam_info_universal_degrades_elsewhere:
  assumes titles: "\<forall>q' u v u'. wiki_search_title W q' u = (Inr v, u') \<longrightarrow> title_ok v"
      and parses: "\<forall>u url r. http_get W u url [] = Inr r \<and> status_code r = 200
                     \<longrightarrow> \<not> isl (html_parser W (body_text r))"
  shows "\<exists>info t'.
     fetch_exam_info_universal W q iv ib t = (Inr info, t')
     \<and> query info = q
     \<and> ((\<forall>u p. http_failed (http_get W u WIKIPEDIA_SEARCH_API p))
          \<longrightarrow> wikipedia info = empty_wiki_info)
     \<and> ((\<forall>u url. page_failed (http_get W u url []))
          \<longrightarrow> w_summary (wikipedia info) = None \<and> w_syllabus (wikipedia info) = None
              \<and> w_pattern (wikipedia info) = None \<and> other_sections (wikipedia info) = [])
     \<and> (\<not> HAVE_YT W \<or> \<not> truthy (YOUTUBE_API_KEY W) \<or> (\<forall>u p. isl (youtube_execute W u p))
          \<longrightarrow> videos info = [] \<and> playlist_of info = None)
     \<and> ((\<forall>u p. http_failed (http_get W u GOOGLE_BOOKS_BASE p)) \<longrightarrow> books info = [])
     \<and> ((\<forall>u. \<forall>s \<in> set (registered_links q). http_failed (http_get W u (src_link s) []))
          \<longrightarrow> free_pyqs info = [])"
proof -
  obtain w t1 where w: "find_relevant_wiki_info W q t = (Inr w, t1)"
    and wb: "(\<forall>u url. page_failed (http_get W u url []))
          \<longrightarrow> w_summary w = None \<and> w_syllabus w = None \<and> w_pattern w = None \<and> other_sections w = []"
    using find_relevant_wiki_info_returns [OF titles parses, of q t] by blast
  obtain vs n2 where vs:
    "(if iv then search_youtube_videos W q 6 else return []) t1 = (Inr vs, t1 @ n2)"
    "\<not> HAVE_YT W \<or> \<not> truthy (YOUTUBE_API_KEY W) \<or> (\<forall>u p. isl (youtube_execute W u p))
       \<longrightarrow> vs = []"
    using videos_part [of iv W q t1] by blast
  obtain pl n3 where pl:
    "(if iv then search_youtube_playlist W q else return None) (t1 @ n2) = (Inr pl, (t1 @ n2) @ n3)"
    "\<not> HAVE_YT W \<or> \<not> truthy (YOUTUBE_API_KEY W) \<or> (\<forall>u p. isl (youtube_execute W u p))
       \<longrightarrow> pl = None"
    using playlist_part [of iv W q "t1 @ n2"] by blast
  obtain bs n4 where bs:
    "(if ib then search_google_books W q 6 else return []) ((t1 @ n2) @ n3)
       = (Inr bs, ((t1 @ n2) @ n3) @ n4)"
    "(\<forall>u p. http_failed (http_get W u GOOGLE_BOOKS_BASE p)) \<longrightarrow> bs = []"
    using books_part [of ib W q "(t1 @ n2) @ n3"] by blast
  obtain ps n5 where ps:
    "(if ib then fetch_free_pyqs_links W q else return []) (((t1 @ n2) @ n3) @ n4)
       = (Inr ps, (((t1 @ n2) @ n3) @ n4) @ n5)"
    "(\<forall>u. \<forall>s \<in> set (registered_links q). http_failed (http_get W u (src_link s) []))
       \<longrightarrow> ps = []"
    using pyqs_part [of ib W q "((t1 @ n2) @ n3) @ n4"] by blast
  have run: "fetch_exam_info_universal W q iv ib t =
      (Inr \<lparr>query = q, wikipedia = w, videos = vs, playlist_of = pl, books = bs, free_pyqs = ps\<rparr>,
       (((t1 @ n2) @ n3) @ n4) @ n5)"
    using fetch_exam_info_universal_run [OF w vs(1) pl(1) bs(1) ps(1)] .
  have wa: "(\<forall>u p. http_failed (http_get W u WIKIPEDIA_SEARCH_API p)) \<longrightarrow> w = empty_wiki_info"
    using find_relevant_wiki_info_search_failed [of W q t] w by auto
  show ?thesis
    unfolding run using wa wb vs(2) pl(2) bs(2) ps(2) by simp
qed

lemma offline_run:
  "fetch_exam_info_universal offline_world ''neet'' True True [] =
     (Inr \<lparr>query = ''neet'', wikipedia = empty_wiki_info, videos = [], playlist_of = None,
           books = [], free_pyqs = []\<rparr>,
      [HttpGet WIKIPEDIA_SEARCH_API (wiki_search_params ''neet exam''),
       HttpGet WIKIPEDIA_SEARCH_API (wiki_search_params ''neet''),
       HttpGet GOOGLE_BOOKS_BASE (books_params ''neet'' 6),
       HttpGet neet_url [], HttpGet neet_self []])"
  by code_simp

section \<open>The two flags\<close>

text \<open>
  Claim C7. \<open>fetch_exam_info_universal\<close> always starts with the encyclopedia search, and it
  returns a record exactly when the encyclopedia lookup returns one (an exception of that
  lookup leaves it before any other lookup runs). With \<open>include_videos\<close> false the videos
  are the empty list, the playlist is absent and no call reaches the video service; with
  \<open>include_books\<close> false the books and the paper links are both the empty list and no call
  reaches the books service or an archive page.
\<close>

theorem fetch_exam_info_universal_flags:
  "\<exists>res new.
     fetch_exam_info_universal W q iv ib t =
       (res, t @ HttpGet WIKIPEDIA_SEARCH_API (wiki_search_params (q @ '' exam'')) # new)
     \<and> (case fst (find_relevant_wiki_info W q t) of
          Inl e \<Rightarrow> res = Inl e \<and> (\<forall>c \<in> set new. is_wiki_call c)
        | Inr w \<Rightarrow> (\<exists>info. res = Inr info \<and> query info = q \<and> wikipedia info = w))
     \<and> (\<not> iv \<longrightarrow> (\<forall>info. res = Inr info \<longrightarrow> videos info = [] \<and> playlist_of info = None)
                   \<and> (\<forall>c \<in> set new. \<not> is_youtube_call c))
     \<and> (\<not> ib \<longrightarrow> (\<forall>info. res = Inr info \<longrightarrow> books info = [] \<and> free_pyqs info = [])
                   \<and> (\<forall>c \<in> set new. \<not> is_books_call c \<and> \<not> is_archive_call c))"
proof -
  let ?c1 = "HttpGet WIKIPEDIA_SEARCH_API (wiki_search_params (q @ '' exam''))"
  obtain r n1 where w: "find_relevant_wiki_info W q t = (r, t @ ?c1 # n1)"
    and k1: "\<forall>c \<in> set n1. is_wiki_call c"
    using find_relevant_wiki_info_cases by blast
  let ?t1 = "t @ ?c1 # n1"
  show ?thesis
  proof (cases r)
    case (Inl e)
    have run: "fetch_exam_info_universal W q iv ib t = (Inl e, ?t1)"
      using fetch_exam_info_universal_raises w Inl by blast
    have ny: "\<forall>c \<in> set n1. \<not> is_youtube_call c \<and> \<not> is_books_call c \<and> \<not> is_archive_call c"
      using k1 kinds_wiki by blast
    show ?thesis
      using run w Inl k1 ny by (intro exI [of _ "Inl e"] exI [of _ n1]) simp
  next
    case (Inr wi)
    have w': "find_relevant_wiki_info W q t = (Inr wi, ?t1)" using w Inr by simp
    obtain vs n2 where vs:
      "(if iv then search_youtube_videos W q 6 else return []) ?t1 = (Inr vs, ?t1 @ n2)"
      and k2: "\<forall>c \<in> set n2. is_youtube_call c" and f2: "\<not> iv \<longrightarrow> vs = [] \<and> n2 = []"
      using videos_part [of iv W q ?t1] by blast
    obtain pl n3 where pl:
      "(if iv then search_youtube_playlist W q else return None) (?t1 @ n2) = (Inr pl, (?t1 @ n2) @ n3)"
      and k3: "\<forall>c \<in> set n3. is_youtube_call c" and f3: "\<not> iv \<longrightarrow> pl = None \<and> n3 = []"
      using playlist_part [of iv W q "?t1 @ n2"] by blast
    obtain bs n4 where bs:
      "(if ib then search_google_books W q 6 else return []) ((?t1 @ n2) @ n3)
         = (Inr bs, ((?t1 @ n2) @ n3) @ n4)"
      and k4: "\<forall>c \<in> set n4. is_books_call c" and f4: "\<not> ib \<longrightarrow> bs = [] \<and> n4 = []"
      using books_part [of ib W q "(?t1 @ n2) @ n3"] by blast
    obtain ps n5 where ps:
      "(if ib then fetch_free_pyqs_links W q else return []) (((?t1 @ n2) @ n3) @ n4)
         = (Inr ps, (((?t1 @ n2) @ n3) @ n4) @ n5)"
      and k5: "\<forall>c \<in> set n5. is_archive_call c" and f5: "\<not> ib \<longrightarrow> ps = [] \<and> n5 = []"
      using pyqs_part [of ib W q "((?t1 @ n2) @ n3) @ n4"] by blast
    let ?new = "n1 @ n2 @ n3 @ n4 @ n5"
    let ?info = "\<lparr>query = q, wikipedia = wi, videos = vs, playlist_of = pl,
                  books = bs, free_pyqs = ps\<rparr>"
    have tr: "(((?t1 @ n2) @ n3) @ n4) @ n5 = t @ ?c1 # ?new" by simp
    have run: "fetch_exam_info_universal W q iv ib t = (Inr ?info, t @ ?c1 # ?new)"
      using fetch_exam_info_universal_run [OF w' vs pl bs ps] unfolding tr .
    have ny: "\<not> iv \<longrightarrow> (\<forall>c \<in> set ?new. \<not> is_youtube_call c)"
      using k1 k4 k5 f2 f3 kinds_wiki kinds_books kinds_archive by auto
    have nb: "\<not> ib \<longrightarrow> (\<forall>c \<in> set ?new. \<not> is_books_call c \<and> \<not> is_archive_call c)"
      using k1 k2 k3 f4 f5 kinds_wiki kinds_youtube by auto
    have fw: "fst (find_relevant_wiki_info W q t) = Inr wi" using w' by simp
    show ?thesis
      unfolding fw using run ny nb f2 f3 f4 f5
      by (intro exI [of _ "Inr ?info"] exI [of _ ?new]) simp
  qed
qed

lemma full_world_gated_run:
  "fetch_exam_info_universal full_world ''neet'' False False [] =
     (Inr \<lparr>query = ''neet'',
           wikipedia = \<lparr>w_title = Some ''Some Exam'', w_summary = None, w_syllabus = None,
                        w_pattern = None, other_sections = [(''summary'', [])]\<rparr>,
           videos = [], playlist_of = None, books = [], free_pyqs = []\<rparr>,
      [HttpGet WIKIPEDIA_SEARCH_API (wiki_search_params ''neet exam''),
       HttpGet (WIKIPEDIA_REST_PAGE ''Some_Exam'') []])"
  by code_simp

lemma full_world_open_run:
  "map_sum id (\<lambda>info. (length (videos info), playlist_of info \<noteq> None, length (books info),
                       length (free_pyqs info)))
     (fst (fetch_exam_info_universal full_world ''neet'' True True [])) = Inr (1, True, 1, 5)"
  by code_simp

lemma rejecting_world_gated_run:
  "fetch_exam_info_universal rejecting_world ''neet'' False False [] =
     (Inl ParserRejectedMarkup,
      [HttpGet WIKIPEDIA_SEARCH_API (wiki_search_params ''neet exam''),
       HttpGet (WIKIPEDIA_REST_PAGE ''Some_Exam'') []])"
  by code_simp

theorem fetch_exam_info_universal_flags_witness:
  "map_sum id (\<lambda>info. (length (videos info), playlist_of info \<noteq> None, length (books info),
                       length (free_pyqs info)))
     (fst (fetch_exam_info_universal full_world ''neet'' True True [])) = Inr (1, True, 1, 5)
   \<and> (\<exists>info new.
        fetch_exam_info_universal full_world ''neet'' False False [] =
          (Inr info, HttpGet WIKIPEDIA_SEARCH_API (wiki_search_params ''neet exam'') # new)
        \<and> new = [HttpGet (WIKIPEDIA_REST_PAGE ''Some_Exam'') []]
        \<and> videos info = [] \<and> playlist_of info = None \<and> books info = [] \<and> free_pyqs info = []
        \<and> (\<forall>c \<in> set new. \<not> is_youtube_call c \<and> \<not> is_books_call c \<and> \<not> is_archive_call c))
   \<and> (\<exists>new.
        fetch_exam_info_universal rejecting_world ''neet'' False False [] =
          (Inl ParserRejectedMarkup,
           HttpGet WIKIPEDIA_SEARCH_API (wiki_search_params ''neet exam'') # new)
        \<and> new = [HttpGet (WIKIPEDIA_REST_PAGE ''Some_Exam'') []]
        \<and> (\<forall>c \<in> set new. \<not> is_youtube_call c \<and> \<not> is_books_call c \<and> \<not> is_archive_call c))"
  using full_world_open_run full_world_gated_run rejecting_world_gated_run
    fetch_exam_info_universal_flags [of full_world "''neet''" False False "[]"]
    fetch_exam_info_universal_flags [of rejecting_world "''neet''" False False "[]"]
  by auto

end
